theory Spec2Isabelle
  imports Main "HOL-Library.Sublist"
begin

section \<open>Strings and the character classes of the regular expressions\<close>

text \<open>
  The scraper is JavaScript; its strings are sequences of UTF-16 code units. The model
  uses \<^typ>\<open>string\<close> with one \<^typ>\<open>char\<close> per code unit, which covers the code units
  0 to 255. Within that range the class \<open>\s\<close> of a JavaScript regular expression (and the
  set removed by \<open>trim\<close>) is tab, line feed, vertical tab, form feed, carriage return,
  space and the no-break space U+00A0.
\<close>

definition is_space :: "char \<Rightarrow> bool" where
  "is_space c = (c \<in> set [CHR 0x09, CHR 0x0A, CHR 0x0B, CHR 0x0C, CHR 0x0D, CHR 0x20, CHR 0xA0])"

definition is_digit :: "char \<Rightarrow> bool" where
  "is_digit c = (c \<in> set ''0123456789'')"

text \<open>\<open>[A-Z]\<close> under the flag \<open>i\<close>: the ASCII letters of either case.\<close>

definition is_alpha :: "char \<Rightarrow> bool" where
  "is_alpha c = (c \<in> set ''ABCDEFGHIJKLMNOPQRSTUVWXYZabcdefghijklmnopqrstuvwxyz'')"

text \<open>\<open>\w\<close>, the class that decides the word boundary \<open>\b\<close>.\<close>

definition is_word :: "char \<Rightarrow> bool" where
  "is_word c = (is_alpha c \<or> is_digit c \<or> c = CHR ''_'')"

definition trim :: "string \<Rightarrow> string" where
  "trim s = rev (dropWhile is_space (rev (dropWhile is_space s)))"

text \<open>\<open>s.replace(/[cls]+/g, ' ')\<close>: every maximal run of characters of the class becomes one space.\<close>

function replace_runs :: "(char \<Rightarrow> bool) \<Rightarrow> string \<Rightarrow> string" where
  "replace_runs p [] = []"
| "replace_runs p (c # cs) =
     (if p c then CHR '' '' # replace_runs p (dropWhile p cs) else c # replace_runs p cs)"
  by pat_completeness auto
termination
  by (relation "measure (\<lambda>(p, s). length s)") (auto simp: le_imp_less_Suc length_dropWhile_le)

text \<open>\<open>s.replace(/\s{2,}/g, ' ')\<close>: a run of two or more white-space characters becomes one
  space; a single white-space character stays as it is.\<close>

function collapse_spaces :: "string \<Rightarrow> string" where
  "collapse_spaces [] = []"
| "collapse_spaces [c] = [c]"
| "collapse_spaces (c # d # cs) =
     (if is_space c \<and> is_space d then CHR '' '' # collapse_spaces (dropWhile is_space cs)
      else c # collapse_spaces (d # cs))"
  by pat_completeness auto
termination
  by (relation "measure length") (auto intro: le_less_trans [OF length_dropWhile_le])

text \<open>
  \<^verbatim>\<open>const cleanText = (s) => String(s ?? '')
  .replace(/[\u00A0\t\r\n]+/g, ' ').replace(/\s{2,}/g, ' ').trim();\<close>
  on a string argument.
\<close>

definition is_nbsp_tab_cr_lf :: "char \<Rightarrow> bool" where
  "is_nbsp_tab_cr_lf c = (c \<in> set [CHR 0xA0, CHR 0x09, CHR 0x0D, CHR 0x0A])"

definition cleanText :: "string \<Rightarrow> string" where
  "cleanText s = trim (collapse_spaces (replace_runs is_nbsp_tab_cr_lf s))"

text \<open>
  \<^verbatim>\<open>const deEllipsize = (s) => (s || '').replace(/\u2026/g, '...');\<close>
  The ellipsis U+2026 is not among the code units 0 to 255, so on the strings of the model
  there is nothing to replace.
\<close>

definition deEllipsize :: "string \<Rightarrow> string" where
  "deEllipsize s = s"

fun strip_prefix :: "string \<Rightarrow> string \<Rightarrow> string option" where
  "strip_prefix [] s = Some s"
| "strip_prefix (p # ps) [] = None"
| "strip_prefix (p # ps) (c # cs) = (if p = c then strip_prefix ps cs else None)"

section \<open>Numbers read from and written to strings\<close>

text \<open>
  The value of a string of decimal digits, and the decimal digits of a natural number.
  The value of the empty string is \<open>0\<close>.
\<close>

definition digit_val :: "char \<Rightarrow> nat" where
  "digit_val c = of_char c - 48"

definition nat_of_digits :: "string \<Rightarrow> nat" where
  "nat_of_digits s = foldl (\<lambda>n c. 10 * n + digit_val c) 0 s"

function digits_of :: "nat \<Rightarrow> string" where
  "n < 10 \<Longrightarrow> digits_of n = [''0123456789'' ! n]"
| "\<not> n < 10 \<Longrightarrow> digits_of n = digits_of (n div 10) @ [''0123456789'' ! (n mod 10)]"
  by (atomize_elim) auto
termination
  by (relation "measure id") auto

text \<open>
  JavaScript numbers are IEEE 754 doubles. The numbers the scraper reads from the text of
  a page are written with decimal digits only, so they are non-negative integers: a double
  with such a value is a natural number whose binary digits, from the first to the last
  that is set, are at most 53, below \<open>2^1024\<close>; what is larger is \<open>Infinity\<close>.
\<close>

datatype number = Finite nat | Infinity

text \<open>The number of binary digits of a natural number.\<close>

function bit_length :: "nat \<Rightarrow> nat" where
  "n = 0 \<Longrightarrow> bit_length n = 0"
| "n \<noteq> 0 \<Longrightarrow> bit_length n = Suc (bit_length (n div 2))"
  by (atomize_elim) auto
termination
  by (relation "measure id") auto

text \<open>
  The Number value for a natural number: the nearest double, the one with the even
  significand when two are equally near, \<open>Infinity\<close> from \<open>2^1024 - 2^970\<close> on. The \<open>e\<close>
  binary digits that do not fit into the significand are rounded away.
\<close>

definition to_double :: "nat \<Rightarrow> number" where
  "to_double n =
     (let e = bit_length n - 53;
          q = n div 2 ^ e;
          r = n mod 2 ^ e;
          m = (if 2 * r < 2 ^ e \<or> (2 * r = 2 ^ e \<and> even q) then q else q + 1)
      in if m * 2 ^ e < 2 ^ 1024 then Finite (m * 2 ^ e) else Infinity)"

text \<open>
  \<open>parseInt(s, 10)\<close> and \<open>Number(s)\<close> on a string of decimal digits: the Number value for
  the value of the digits (V8 rounds the exact value, however many digits there are).
  \<open>Number('')\<close> is \<open>0\<close>.
\<close>

definition parseInt :: "string \<Rightarrow> number" where
  "parseInt s = to_double (nat_of_digits s)"

definition Number :: "string \<Rightarrow> number" where
  "Number s = to_double (nat_of_digits s)"

text \<open>\<open>x + 1\<close>: the Number value for the exact sum.\<close>

fun plus_one :: "number \<Rightarrow> number" where
  "plus_one (Finite n) = to_double (n + 1)"
| "plus_one Infinity = Infinity"

text \<open>
  The digits with which a positive double \<open>x\<close> is written (\<open>Number::toString\<close>): integers
  \<open>n\<close>, \<open>k\<close> and \<open>s\<close> with \<open>k \<ge> 1\<close>, \<open>10^(k-1) \<le> s < 10^k\<close> and \<open>s \<times> 10^(n-k)\<close> a number whose
  Number value is \<open>x\<close>, with \<open>k\<close> as small as possible; among several such \<open>s\<close> the one for
  which \<open>s \<times> 10^(n-k)\<close> is closest to \<open>x\<close>, the even one if two are as close.

  For a given \<open>k\<close> below the number \<open>L\<close> of decimal digits of \<open>x\<close>, the candidates are \<open>x\<close>
  cut to its first \<open>k\<close> digits, that number plus one, and for \<open>k = 1\<close> the power \<open>10^L\<close>.
  With \<open>k = L\<close> the digits of \<open>x\<close> itself are left.
\<close>

definition represents :: "nat \<Rightarrow> nat \<Rightarrow> nat \<Rightarrow> nat \<Rightarrow> bool" where
  "represents x n k s =
     (10 ^ (k - 1) \<le> s \<and> s < 10 ^ k \<and> to_double (s * 10 ^ (n - k)) = Finite x)"

definition digits_at :: "nat \<Rightarrow> nat \<Rightarrow> (nat \<times> nat) option" where
  "digits_at x k =
     (let L = length (digits_of x); p = 10 ^ (L - k); lo = x div p; hi = lo + 1 in
      if represents x L k lo \<and> represents x L k hi then
        Some (L, if x - lo * p < hi * p - x \<or> (x - lo * p = hi * p - x \<and> even lo)
                 then lo else hi)
      else if represents x L k lo then Some (L, lo)
      else if represents x L k hi then Some (L, hi)
      else if k = 1 \<and> represents x (L + 1) 1 1 then Some (L + 1, 1)
      else None)"

definition shortest :: "nat \<Rightarrow> nat \<times> nat \<times> nat" where
  "shortest x =
     (let L = length (digits_of x) in
      case find (\<lambda>k. digits_at x k \<noteq> None) [1..<L] of
        Some k \<Rightarrow> (case digits_at x k of Some (n, s) \<Rightarrow> (n, k, s) | None \<Rightarrow> (L, L, x))
      | None \<Rightarrow> (L, L, x))"

text \<open>
  The conversion of a number in a template literal, \<open>`${x}`\<close>: the digits of \<open>s\<close> followed by
  \<open>n - k\<close> zeros up to \<open>n = 21\<close>, the exponent notation beyond.
\<close>

definition Number_toString :: "number \<Rightarrow> string" where
  "Number_toString x =
     (case x of
        Infinity \<Rightarrow> ''Infinity''
      | Finite v \<Rightarrow>
          if v = 0 then ''0''
          else
            (case shortest v of (n, k, s) \<Rightarrow>
               if n \<le> 21 then digits_of s @ replicate (n - k) CHR ''0''
               else if k = 1 then digits_of s @ ''e+'' @ digits_of (n - 1)
               else hd (digits_of s) # ''.'' @ tl (digits_of s) @ ''e+'' @ digits_of (n - 1)))"

text \<open>
  \<open>x.toLocaleString()\<close> in the default locale \<open>en-US\<close>, as Node renders it: the digits of
  \<open>s\<close> followed by \<open>n - k\<close> zeros, whatever \<open>n\<close> is, in groups of three separated by commas.
  \<open>Infinity\<close> is rendered as the sign U+221E; that code unit is not among the code units
  0 to 255 of the strings of the model, where the substitute character U+001A stands for
  it.
\<close>

fun group3 :: "string \<Rightarrow> string" where
  "group3 (a # b # c # d # r) = a # b # c # CHR '','' # group3 (d # r)"
| "group3 s = s"

definition toLocaleString :: "number \<Rightarrow> string" where
  "toLocaleString x =
     (case x of
        Infinity \<Rightarrow> [CHR 0x1A]
      | Finite v \<Rightarrow>
          if v = 0 then ''0''
          else
            (case shortest v of (n, k, s) \<Rightarrow>
               rev (group3 (rev (digits_of s @ replicate (n - k) CHR ''0'')))))"

section \<open>URL Resolver: \<open>toAbs\<close>\<close>

text \<open>
  \<open>new URL(href, base).href\<close> is the platform's URL parser; it is a parameter \<open>URL\<close> of
  the model, \<open>None\<close> when the constructor throws. The repository holds three variants of
  the resolver.

  \<^verbatim>\<open>const toAbs = (href, base = 'https://www.jobberman.com') => {
    try {
        const abs = new URL(href, base).href;
        return /^https?:/i.test(abs) ? abs : null;
    } catch { return null; }
};\<close>
\<close>

type_synonym url_parser = "string \<Rightarrow> string \<Rightarrow> string option"

definition lower_char :: "char \<Rightarrow> char" where
  "lower_char c =
     (case map_of (zip ''ABCDEFGHIJKLMNOPQRSTUVWXYZ'' ''abcdefghijklmnopqrstuvwxyz'') c of
        Some l \<Rightarrow> l | None \<Rightarrow> c)"

text \<open>\<open>/^https?:/i.test(abs)\<close>\<close>

definition is_http :: "string \<Rightarrow> bool" where
  "is_http u = (let l = map lower_char u in prefix ''http:'' l \<or> prefix ''https:'' l)"

definition toAbs_checked :: "url_parser \<Rightarrow> string \<Rightarrow> string \<Rightarrow> string option" where
  "toAbs_checked URL href base =
     (case URL href base of
        None \<Rightarrow> None
      | Some u \<Rightarrow> if is_http u then Some u else None)"

text \<open>
  The variant of the script that also holds \<open>enrichFromJsonLd\<close>, \<open>findNextUrl\<close> and
  \<open>extractFromListingCard\<close>:
  \<^verbatim>\<open>const toAbs = (href, base = 'https://www.jobberman.com') => {
  try { return new URL(href, base).href; } catch { return null; }
};\<close>
\<close>

definition toAbs :: "url_parser \<Rightarrow> string \<Rightarrow> string \<Rightarrow> string option" where
  "toAbs URL href base = URL href base"

text \<open>
  The CommonJS variant returns the empty string instead of \<open>null\<close>:
  \<^verbatim>\<open>const toAbs = (href, base) => {
    try { return new URL(href, base).toString(); } catch (_) { return ''; }
};\<close>
\<close>

definition toAbs_cjs :: "url_parser \<Rightarrow> string \<Rightarrow> string \<Rightarrow> string" where
  "toAbs_cjs URL href base = (case URL href base of None \<Rightarrow> [] | Some u \<Rightarrow> u)"

section \<open>Pagination Cursor Resolver: \<open>findNextUrl\<close>\<close>

text \<open>
  What the three queries for a "next" link return on a list page (\<open>attr('href')\<close> of the
  first match, \<open>None\<close> for \<open>undefined\<close>).
\<close>

record next_links =
  next_page_text :: "string option"
  next_rel :: "string option"
  next_goto :: "string option"

text \<open>\<open>a || b\<close> on values that are a string or \<open>undefined\<close>.\<close>

definition or_str :: "string option \<Rightarrow> string option \<Rightarrow> string option" where
  "or_str a b = (case a of Some (c # cs) \<Rightarrow> a | _ \<Rightarrow> b)"

definition truthy_str :: "string option \<Rightarrow> bool" where
  "truthy_str a = (case a of Some (c # cs) \<Rightarrow> True | _ \<Rightarrow> False)"

text \<open>A match of \<open>/[?&]page=(\d+)/\<close> starting at the head of the string: the separator, the
  digits and what follows them.\<close>

definition page_at :: "string \<Rightarrow> (char \<times> string \<times> string) option" where
  "page_at s =
     (case s of
        [] \<Rightarrow> None
      | c # cs \<Rightarrow>
          if c = CHR ''?'' \<or> c = CHR ''&'' then
            (case strip_prefix ''page='' cs of
               None \<Rightarrow> None
             | Some r \<Rightarrow>
                 if takeWhile is_digit r = [] then None
                 else Some (c, takeWhile is_digit r, dropWhile is_digit r))
          else None)"

text \<open>The leftmost match: the text before it, the separator, the digits, the text after.\<close>

fun page_search :: "string \<Rightarrow> (string \<times> char \<times> string \<times> string) option" where
  "page_search [] = None"
| "page_search (c # cs) =
     (case page_at (c # cs) of
        Some (sep, ds, rest) \<Rightarrow> Some ([], sep, ds, rest)
      | None \<Rightarrow>
          (case page_search cs of
             None \<Rightarrow> None
           | Some (pre, m) \<Rightarrow> Some (c # pre, m)))"

text \<open>
  \<^verbatim>\<open>const findNextUrl = ($, currentUrl) => {
  const nextLink =
    $('a[href*="?page="]').filter((_, a) => /next/i.test($(a).text())).attr('href') ||
    $('a[rel="next"]').attr('href') ||
    $('a').filter((_, a) => /Go to next page/i.test($(a).text())).attr('href');
  if (nextLink) return toAbs(nextLink, currentUrl);
  const m = currentUrl.match(/[?&]page=(\d+)/);
  if (m) return currentUrl.replace(/([?&])page=\d+/, `$1page=${parseInt(m[1], 10) + 1}`);
  return currentUrl.includes('?') ? `${currentUrl}&page=2` : `${currentUrl}?page=2`;
};\<close>
\<close>

definition findNextUrl :: "url_parser \<Rightarrow> next_links \<Rightarrow> string \<Rightarrow> string option" where
  "findNextUrl URL nl currentUrl =
     (let nextLink = or_str (or_str (next_page_text nl) (next_rel nl)) (next_goto nl) in
      if truthy_str nextLink then toAbs URL (the nextLink) currentUrl
      else
        (case page_search currentUrl of
           Some (pre, sep, ds, rest) \<Rightarrow>
             Some (pre @ sep # ''page='' @ Number_toString (plus_one (parseInt ds)) @ rest)
         | None \<Rightarrow>
             Some (if CHR ''?'' \<in> set currentUrl then currentUrl @ ''&page=2''
                   else currentUrl @ ''?page=2'')))"

section \<open>Heuristic Field Classifier: the salary of a listing card\<close>

text \<open>
  \<^verbatim>\<open>const lines = cleanText($card.text()).split(/\s{2,}|\n+/).map(s => s.trim()).filter(Boolean);\<close>
  The split: at each position the first alternative \<open>\s{2,}\<close> is tried, then \<open>\n+\<close>.
\<close>

function split_on_gaps :: "string \<Rightarrow> string \<Rightarrow> string list" where
  "split_on_gaps acc [] = [rev acc]"
| "split_on_gaps acc (c # cs) =
     (if is_space c \<and> cs \<noteq> [] \<and> is_space (hd cs)
        then rev acc # split_on_gaps [] (dropWhile is_space cs)
      else if c = CHR 0x0A
        then rev acc # split_on_gaps [] (dropWhile (\<lambda>d. d = CHR 0x0A) cs)
      else split_on_gaps (c # acc) cs)"
  by pat_completeness auto
termination
  by (relation "measure (\<lambda>(acc, s). length s)") (auto simp: le_imp_less_Suc length_dropWhile_le)

definition card_lines :: "string \<Rightarrow> string list" where
  "card_lines cardText =
     filter (\<lambda>l. l \<noteq> []) (map trim (split_on_gaps [] (cleanText cardText)))"

definition is_amount_char :: "char \<Rightarrow> bool" where
  "is_amount_char c = (is_digit c \<or> c = CHR '','')"

fun three_letters :: "string \<Rightarrow> (string \<times> string) option" where
  "three_letters (a # b # c # rest) =
     (if is_alpha a \<and> is_alpha b \<and> is_alpha c then Some ([a, b, c], rest) else None)"
| "three_letters s = None"

text \<open>\<open>(?:-|to)\<close> under the flag \<open>i\<close>.\<close>

fun range_sep :: "string \<Rightarrow> string option" where
  "range_sep (a # rest) =
     (if a = CHR ''-'' then Some rest
      else if a = CHR ''t'' \<or> a = CHR ''T'' then
        (case rest of
           b # rest' \<Rightarrow> if b = CHR ''o'' \<or> b = CHR ''O'' then Some rest' else None
         | [] \<Rightarrow> None)
      else None)"
| "range_sep [] = None"

text \<open>
  The optional group \<open>(?:\s*(?:-|to)\s*([A-Z]{3})?\s*([\d,]+))?\<close> tried at the head of the
  string: the second currency code, if any, and the second amount. The greedy quantifiers
  leave nothing to backtrack into: white space, letters and amount characters are disjoint
  classes.
\<close>

definition range_tail :: "string \<Rightarrow> (string option \<times> string) option" where
  "range_tail s =
     (case range_sep (dropWhile is_space s) of
        None \<Rightarrow> None
      | Some s2 \<Rightarrow>
          (let s3 = dropWhile is_space s2 in
           case three_letters s3 of
             Some (c2, s4) \<Rightarrow>
               (let amt = takeWhile is_amount_char (dropWhile is_space s4) in
                if amt = [] then None else Some (Some c2, amt))
           | None \<Rightarrow>
               (let amt = takeWhile is_amount_char s3 in
                if amt = [] then None else Some (None, amt))))"

text \<open>
  \<open>/\b([A-Z]{3})\s*([\d,]+)(?:\s*(?:-|to)\s*([A-Z]{3})?\s*([\d,]+))?/i\<close> tried at one position;
  \<open>prev\<close> is the character before the position. The result is the capture groups
  \<open>m[1]\<close> to \<open>m[4]\<close>.
\<close>

type_synonym salary_groups = "string \<times> string \<times> string option \<times> string option"

definition salary_match_at :: "char option \<Rightarrow> string \<Rightarrow> salary_groups option" where
  "salary_match_at prev s =
     (if (case prev of None \<Rightarrow> False | Some p \<Rightarrow> is_word p) then None
      else
        (case three_letters s of
           None \<Rightarrow> None
         | Some (c, s1) \<Rightarrow>
             (let s2 = dropWhile is_space s1; amt = takeWhile is_amount_char s2 in
              if amt = [] then None
              else
                (case range_tail (dropWhile is_amount_char s2) of
                   None \<Rightarrow> Some (c, amt, None, None)
                 | Some (c2, amt2) \<Rightarrow> Some (c, amt, c2, Some amt2)))))"

text \<open>\<open>salLine.match(...)\<close>: the leftmost position at which the expression matches.\<close>

fun salary_search :: "char option \<Rightarrow> string \<Rightarrow> salary_groups option" where
  "salary_search prev [] = None"
| "salary_search prev (c # cs) =
     (case salary_match_at prev (c # cs) of
        Some m \<Rightarrow> Some m
      | None \<Rightarrow> salary_search (Some c) cs)"

text \<open>
  \<open>/\b([A-Z]{3})\s*\d[\d,]*(?:\s*(?:-|to)\s*([A-Z]{3})?\s*[\d,]+)?/i.test(l)\<close>: some position
  has a word boundary, three letters, white space and a digit; the rest is optional.
\<close>

definition salary_test_at :: "char option \<Rightarrow> string \<Rightarrow> bool" where
  "salary_test_at prev s =
     (if (case prev of None \<Rightarrow> False | Some p \<Rightarrow> is_word p) then False
      else
        (case three_letters s of
           None \<Rightarrow> False
         | Some (c, s1) \<Rightarrow>
             (case dropWhile is_space s1 of [] \<Rightarrow> False | d # r \<Rightarrow> is_digit d)))"

fun salary_test_from :: "char option \<Rightarrow> string \<Rightarrow> bool" where
  "salary_test_from prev [] = False"
| "salary_test_from prev (c # cs) = (salary_test_at prev (c # cs) \<or> salary_test_from (Some c) cs)"

definition salary_test :: "string \<Rightarrow> bool" where
  "salary_test l = salary_test_from None l"

text \<open>\<open>Number(m[2].replace(/,/g, ''))\<close>\<close>

definition amount_of :: "string \<Rightarrow> number" where
  "amount_of a = Number (filter (\<lambda>c. c \<noteq> CHR '','') a)"

text \<open>
  The salary block of \<open>extractFromListingCard\<close>; \<open>res.salary_range\<close> starts as \<open>''\<close>.
  \<^verbatim>\<open>const salLine = lines.find(l => /\b([A-Z]{3})\s*\d[\d,]*(?:\s*(?:-|to)\s*([A-Z]{3})?\s*[\d,]+)?/i.test(l));
  if (salLine) {
    const m = salLine.match(/\b([A-Z]{3})\s*([\d,]+)(?:\s*(?:-|to)\s*([A-Z]{3})?\s*([\d,]+))?/i);
    if (m) {
      const c = m[1] || m[3] || 'NGN';
      const min = Number(m[2].replace(/,/g, ''));
      const max = m[4] ? Number(m[4].replace(/,/g, '')) : null;
      res.salary_range = max ? `${c} ${min.toLocaleString()} - ${c} ${max.toLocaleString()}`
                             : `${c} ${min.toLocaleString()}`;
    }
  }\<close>
  Every line of \<open>lines\<close> is non-empty, so a line that is found is truthy.
\<close>

definition render_salary :: "salary_groups \<Rightarrow> string" where
  "render_salary m =
     (case m of (m1, m2, m3, m4) \<Rightarrow>
        (let c = (if m1 \<noteq> [] then m1 else if truthy_str m3 then the m3 else ''NGN'');
             min = amount_of m2;
             max = (if truthy_str m4 then Some (amount_of (the m4)) else None)
         in if max \<noteq> None \<and> max \<noteq> Some (Finite 0)
            then c @ '' '' @ toLocaleString min @ '' - '' @ c @ '' '' @ toLocaleString (the max)
            else c @ '' '' @ toLocaleString min))"

definition salary_range_of_lines :: "string list \<Rightarrow> string" where
  "salary_range_of_lines lines =
     (case find salary_test lines of
        None \<Rightarrow> []
      | Some salLine \<Rightarrow>
          (case salary_search None salLine of
             None \<Rightarrow> []
           | Some m \<Rightarrow> render_salary m))"

definition card_salary_range :: "string \<Rightarrow> string" where
  "card_salary_range cardText = salary_range_of_lines (card_lines cardText)"

section \<open>JavaScript values\<close>

text \<open>
  The values that \<open>JSON.parse\<close> produces, and \<open>undefined\<close> for a missing property. A number
  is modelled when it is an integer. The operators are those the merge code uses.
\<close>

datatype jsval = JUndefined | JNull | JBool bool | JNum int | JStr string
  | JArr "jsval list" | JObj "(string \<times> jsval) list"

datatype error = TypeError

fun truthy :: "jsval \<Rightarrow> bool" where
  "truthy JUndefined = False"
| "truthy JNull = False"
| "truthy (JBool b) = b"
| "truthy (JNum n) = (n \<noteq> 0)"
| "truthy (JStr s) = (s \<noteq> [])"
| "truthy (JArr xs) = True"
| "truthy (JObj kvs) = True"

text \<open>\<open>a || b\<close>, \<open>a && b\<close> and \<open>a ?? b\<close>\<close>

definition js_or :: "jsval \<Rightarrow> jsval \<Rightarrow> jsval" where
  "js_or a b = (if truthy a then a else b)"

definition js_and :: "jsval \<Rightarrow> jsval \<Rightarrow> jsval" where
  "js_and a b = (if truthy a then b else a)"

definition js_coalesce :: "jsval \<Rightarrow> jsval \<Rightarrow> jsval" where
  "js_coalesce a b = (if a = JUndefined \<or> a = JNull then b else a)"

text \<open>
  \<open>v.k\<close> on a value that is not \<open>null\<close> or \<open>undefined\<close>, for the keys the code reads (none
  of them is a built-in property of a string, number, boolean or array), and \<open>v?.k\<close>.
\<close>

fun js_get :: "jsval \<Rightarrow> string \<Rightarrow> jsval" where
  "js_get (JObj kvs) k = (case map_of kvs k of Some v \<Rightarrow> v | None \<Rightarrow> JUndefined)"
| "js_get v k = JUndefined"

definition js_opt_get :: "jsval \<Rightarrow> string \<Rightarrow> jsval" where
  "js_opt_get v k = (if v = JUndefined \<or> v = JNull then JUndefined else js_get v k)"

fun isArray :: "jsval \<Rightarrow> bool" where
  "isArray (JArr xs) = True"
| "isArray v = False"

text \<open>\<open>v[0]\<close> on an array.\<close>

fun first_elem :: "jsval \<Rightarrow> jsval" where
  "first_elem (JArr (x # xs)) = x"
| "first_elem v = JUndefined"

text \<open>\<open>typeof v === 'object'\<close> on a truthy value.\<close>

fun typeof_object :: "jsval \<Rightarrow> bool" where
  "typeof_object (JArr xs) = True"
| "typeof_object (JObj kvs) = True"
| "typeof_object JNull = True"
| "typeof_object v = False"

fun join :: "string \<Rightarrow> string list \<Rightarrow> string" where
  "join sep [] = []"
| "join sep [x] = x"
| "join sep (x # y # ys) = x @ sep @ join sep (y # ys)"

text \<open>\<open>String(v)\<close>, also the conversion of a template literal and of \<open>Array.prototype.join\<close>.\<close>

fun js_toString :: "jsval \<Rightarrow> string" where
  "js_toString JUndefined = ''undefined''"
| "js_toString JNull = ''null''"
| "js_toString (JBool b) = (if b then ''true'' else ''false'')"
| "js_toString (JNum n) = (if n < 0 then CHR ''-'' # digits_of (nat (- n)) else digits_of (nat n))"
| "js_toString (JStr s) = s"
| "js_toString (JArr xs) =
     join '','' (map (\<lambda>x. if x = JUndefined \<or> x = JNull then [] else js_toString x) xs)"
| "js_toString (JObj kvs) = ''[object Object]''"

text \<open>\<open>cleanText(v)\<close> on any value: \<open>String(v ?? '')\<close> first.\<close>

definition cleanText_val :: "jsval \<Rightarrow> string" where
  "cleanText_val v = cleanText (js_toString (js_coalesce v (JStr [])))"

section \<open>Documents\<close>

text \<open>
  A parsed document is a forest of text nodes and elements; an element has its tag name,
  its attributes in order, and its child nodes. A cheerio selection is a list of nodes.
\<close>

datatype node = Text string | Elem string "(string \<times> string) list" "node list"

text \<open>\<open>$el.text()\<close>: the text of all descendants, in document order.\<close>

fun text_of :: "node \<Rightarrow> string" where
  "text_of (Text s) = s"
| "text_of (Elem t a ks) = concat (map text_of ks)"

text \<open>\<open>$el.attr(name)\<close>, \<open>None\<close> for \<open>undefined\<close>.\<close>

fun attr :: "node \<Rightarrow> string \<Rightarrow> string option" where
  "attr (Text s) k = None"
| "attr (Elem t a ks) k = map_of a k"

fun is_elem :: "node \<Rightarrow> bool" where
  "is_elem (Text s) = False"
| "is_elem (Elem t a ks) = True"

text \<open>\<open>$el.children()\<close>: the child elements.\<close>

fun children :: "node \<Rightarrow> node list" where
  "children (Text s) = []"
| "children (Elem t a ks) = filter is_elem ks"

text \<open>
  \<open>String(el.name).toLowerCase()\<close>. The names it is compared with are ASCII, and lowering a
  character outside ASCII never yields an ASCII character, so lowering the ASCII letters
  decides the same comparisons.
\<close>

definition toLowerCase :: "string \<Rightarrow> string" where
  "toLowerCase s = map lower_char s"

text \<open>
  What the platform and the libraries compute: the URL parser, the HTML parser
  \<open>cheerioLoad\<close> (the nodes of the parsed document), the parser that cheerio runs on a
  string of markup that is put in the place of a node (the nodes of the parsed fragment),
  and \<open>Number(n).toLocaleString()\<close> on a value of the structured data.
\<close>

record platform =
  pf_URL :: url_parser
  pf_cheerioLoad :: "string \<Rightarrow> node list"
  pf_parseFragment :: "string \<Rightarrow> node list"
  pf_Number_toLocaleString :: "jsval \<Rightarrow> string"

section \<open>Description Sanitizer: \<open>sanitizeDescription\<close>\<close>

text \<open>
  \<^verbatim>\<open>const sanitizeDescription = ($ctx, $fragment, baseUrl) => {
  if (!$fragment || !$fragment.length) return '';
  const $ = cheerioLoad('<div id="__root"></div>');
  $('#__root').append($fragment.clone());
  const allowed = new Set([
    'p','br','strong','b','em','i','u','ul','ol','li',
    'h1','h2','h3','h4','h5','h6','a','span','div','section','article'
  ]);
  $('#__root').find('*').each((_, el) => {
    const isTag = el && el.type === 'tag';
    const tag = isTag ? String(el.name || '').toLowerCase() : '';
    if (!isTag) return;
    const isAnchor = tag === 'a';
    let href = isAnchor ? (el.attribs?.href || '') : '';
    el.attribs = {};
    if (isAnchor && href) {
      const abs = toAbs(href, baseUrl);
      if (abs) el.attribs.href = abs;
    }
    if (!allowed.has(tag)) {
      const $el = $(el);
      const txt = cleanText($el.text());
      if (txt) $el.replaceWith(txt);
      else $el.remove();
    }
  });
  $('#__root').find('*').each((_, el) => {
    if (!el || el.type !== 'tag') return;
    const tag = (el.name || '').toLowerCase();
    if (tag === 'br') return;
    const $el = $(el);
    if (!cleanText($el.text()) && $el.children().length === 0) $el.remove();
  });
  let html = $('#__root').html() || '';
  html = html.replace(/>\s+</g, '><').replace(/\s{2,}/g, ' ').trim();
  return html;
};\<close>
\<close>

definition allowed :: "string list" where
  "allowed = [''p'', ''br'', ''strong'', ''b'', ''em'', ''i'', ''u'', ''ul'', ''ol'', ''li'',
     ''h1'', ''h2'', ''h3'', ''h4'', ''h5'', ''h6'', ''a'', ''span'', ''div'', ''section'', ''article'']"

text \<open>
  \<open>el.type\<close>: the library gives an element the type \<open>script\<close> or \<open>style\<close> when that is
  its name, and the type \<open>tag\<close> otherwise.
\<close>

definition is_tag :: "string \<Rightarrow> bool" where
  "is_tag name = (name \<noteq> ''script'' \<and> name \<noteq> ''style'')"

text \<open>The attributes an element is left with: none, or the absolute \<open>href\<close> of an anchor.\<close>

definition reset_attribs :: "url_parser \<Rightarrow> string \<Rightarrow> string \<Rightarrow> (string \<times> string) list
    \<Rightarrow> (string \<times> string) list" where
  "reset_attribs URL baseUrl tag attribs =
     (if tag = ''a'' \<and> truthy_str (map_of attribs ''href'') then
        (let abs = toAbs URL (the (map_of attribs ''href'')) baseUrl in
         if truthy_str abs then [(''href'', the abs)] else [])
      else [])"

text \<open>
  The first loop visits the elements of a snapshot in document order, so an element is
  handled before its descendants. An element of the type \<open>script\<close> or \<open>style\<close> is left as
  it is. An element whose tag is not allowed is replaced by its normalized text, which
  cheerio parses as markup, or removed; what the loop later does to its detached
  descendants does not reach the result, and the nodes put in its place are not in the
  snapshot. The function returns the nodes that stand in the place of the node.
\<close>

fun strip_node :: "platform \<Rightarrow> string \<Rightarrow> node \<Rightarrow> node list" where
  "strip_node env baseUrl (Text s) = [Text s]"
| "strip_node env baseUrl (Elem name attribs kids) =
     (if \<not> is_tag name then
        [Elem name attribs (concat (map (strip_node env baseUrl) kids))]
      else
        (let tag = toLowerCase name in
         if tag \<in> set allowed then
           [Elem name (reset_attribs (pf_URL env) baseUrl tag attribs)
              (concat (map (strip_node env baseUrl) kids))]
         else
           (let txt = cleanText (text_of (Elem name attribs kids)) in
            if txt \<noteq> [] then pf_parseFragment env txt else [])))"

text \<open>
  The second loop is again one pass over a snapshot in document order: when an element is
  visited none of its descendants has been visited, so it is judged on the children it
  has before the pass. An element of the type \<open>script\<close> or \<open>style\<close> is skipped.
\<close>

fun drop_empty :: "node \<Rightarrow> node list" where
  "drop_empty (Text s) = [Text s]"
| "drop_empty (Elem name attribs kids) =
     (if is_tag name \<and> toLowerCase name \<noteq> ''br'' \<and>
         cleanText (text_of (Elem name attribs kids)) = [] \<and>
         children (Elem name attribs kids) = []
      then []
      else [Elem name attribs (concat (map drop_empty kids))])"

text \<open>
  \<open>$('#__root').html()\<close>: the serialization of the child nodes. Text and attribute values
  are escaped as the HTML serializer does, except the text of an element whose content is
  raw text; an element of the void tags has no end tag.
\<close>

fun escape_text :: "string \<Rightarrow> string" where
  "escape_text [] = []"
| "escape_text (c # cs) =
     (if c = CHR ''&'' then ''&amp;''
      else if c = CHR ''<'' then ''&lt;''
      else if c = CHR ''>'' then ''&gt;''
      else if c = CHR 0xA0 then ''&nbsp;''
      else [c]) @ escape_text cs"

fun escape_attr :: "string \<Rightarrow> string" where
  "escape_attr [] = []"
| "escape_attr (c # cs) =
     (if c = CHR ''&'' then ''&amp;''
      else if c = CHR 0x22 then ''&quot;''
      else if c = CHR 0xA0 then ''&nbsp;''
      else [c]) @ escape_attr cs"

definition void_tags :: "string list" where
  "void_tags = [''area'', ''base'', ''basefont'', ''bgsound'', ''br'', ''col'', ''embed'',
     ''frame'', ''hr'', ''img'', ''input'', ''keygen'', ''link'', ''meta'', ''param'',
     ''source'', ''track'', ''wbr'']"

definition raw_text_tags :: "string list" where
  "raw_text_tags = [''style'', ''script'', ''xmp'', ''iframe'', ''noembed'', ''noframes'',
     ''plaintext'', ''noscript'']"

definition serialize_attribs :: "(string \<times> string) list \<Rightarrow> string" where
  "serialize_attribs attribs =
     concat (map (\<lambda>(k, v). '' '' @ k @ [CHR ''='', CHR 0x22] @ escape_attr v @ [CHR 0x22]) attribs)"

text \<open>The flag says whether the parent of the node is an element with raw text.\<close>

fun serialize :: "bool \<Rightarrow> node \<Rightarrow> string" where
  "serialize raw (Text s) = (if raw then s else escape_text s)"
| "serialize raw (Elem name attribs kids) =
     ''<'' @ name @ serialize_attribs attribs @ ''>'' @
     (if name \<in> set void_tags then []
      else concat (map (serialize (name \<in> set raw_text_tags)) kids) @ ''</'' @ name @ ''>'')"

definition html_of :: "node list \<Rightarrow> string" where
  "html_of ns = concat (map (serialize False) ns)"

text \<open>\<open>html.replace(/>\s+</g, '><')\<close>\<close>

function strip_between_tags :: "string \<Rightarrow> string" where
  "strip_between_tags [] = []"
| "strip_between_tags (c # cs) =
     (if c = CHR ''>'' \<and> cs \<noteq> [] \<and> is_space (hd cs) \<and> dropWhile is_space cs \<noteq> [] \<and>
         hd (dropWhile is_space cs) = CHR ''<''
      then ''><'' @ strip_between_tags (tl (dropWhile is_space cs))
      else c # strip_between_tags cs)"
  by pat_completeness auto
termination
proof (relation "measure length")
  show "wf (measure length)" by simp
next
  fix c :: char and cs :: string
  have "length (tl (dropWhile is_space cs)) \<le> length cs"
    using length_dropWhile_le [of is_space cs] by simp
  then show "(tl (dropWhile is_space cs), c # cs) \<in> measure length" by simp
next
  fix c :: char and cs :: string
  show "(cs, c # cs) \<in> measure length" by simp
qed

definition sanitizeDescription :: "platform \<Rightarrow> node list \<Rightarrow> string \<Rightarrow> string" where
  "sanitizeDescription env fragment baseUrl =
     (if fragment = [] then []
      else
        (let stripped = concat (map (strip_node env baseUrl) fragment);
             kept = concat (map drop_empty stripped);
             html = html_of kept
         in trim (collapse_spaces (strip_between_tags html))))"

section \<open>Structured-Data Locator: \<open>parseJsonLdJob\<close>\<close>

text \<open>
  \<^verbatim>\<open>const parseJsonLdJob = ($) => {
  let job = null;
  $('script[type="application/ld+json"]').each((_, s) => {
    const raw = $(s).contents().text();
    const parsed = safeJsonParse(raw);
    if (!parsed) return;
    let candidates = [];
    if (parsed['@graph'] && Array.isArray(parsed['@graph'])) {
      candidates = parsed['@graph'];
    } else {
      candidates = Array.isArray(parsed) ? parsed : [parsed];
    }
    for (const node of candidates) {
      const t = node && node['@type'];
      const isJob = t === 'JobPosting' || (Array.isArray(t) && t.includes('JobPosting'));
      if (isJob) { job = node; return false; }
    }
  });
  return job;
};\<close>
  The argument is the list of what \<open>safeJsonParse\<close> returns on the scripts of the document,
  in document order (\<open>JNull\<close> where \<open>JSON.parse\<close> throws).
\<close>

fun elems :: "jsval \<Rightarrow> jsval list" where
  "elems (JArr xs) = xs"
| "elems v = []"

definition candidates :: "jsval \<Rightarrow> jsval list" where
  "candidates parsed =
     (if truthy (js_get parsed ''@graph'') \<and> isArray (js_get parsed ''@graph'')
      then elems (js_get parsed ''@graph'')
      else if isArray parsed then elems parsed else [parsed])"

definition isJob :: "jsval \<Rightarrow> bool" where
  "isJob node =
     (let t = js_and node (js_get node ''@type'') in
      t = JStr ''JobPosting'' \<or> (isArray t \<and> JStr ''JobPosting'' \<in> set (elems t)))"

fun parseJsonLdJob :: "jsval list \<Rightarrow> jsval" where
  "parseJsonLdJob [] = JNull"
| "parseJsonLdJob (parsed # rest) =
     (if \<not> truthy parsed then parseJsonLdJob rest
      else
        (case find isJob (candidates parsed) of
           Some node \<Rightarrow> node
         | None \<Rightarrow> parseJsonLdJob rest))"

section \<open>Field Merge Resolver: \<open>enrichFromJsonLd\<close>\<close>

record fields =
  title :: jsval
  company :: jsval
  job_type :: jsval
  location :: jsval
  salary_range :: jsval
  category :: jsval
  description_html :: jsval
  description_text :: jsval
  date_posted :: jsval

text \<open>
  \<^verbatim>\<open>out.title = jsonLd.title || out.title;
  out.company = (jsonLd.hiringOrganization && (jsonLd.hiringOrganization.name
      || jsonLd.hiringOrganization['@name'])) || out.company;
  out.date_posted = jsonLd.datePosted || out.date_posted;\<close>
\<close>

definition enrich_title :: "jsval \<Rightarrow> fields \<Rightarrow> fields" where
  "enrich_title jsonLd out = out\<lparr>title := js_or (js_get jsonLd ''title'') (title out)\<rparr>"

definition enrich_company :: "jsval \<Rightarrow> fields \<Rightarrow> fields" where
  "enrich_company jsonLd out =
     (let org = js_get jsonLd ''hiringOrganization'' in
      out\<lparr>company := js_or (js_and org (js_or (js_get org ''name'') (js_get org ''@name'')))
                              (company out)\<rparr>)"

definition enrich_date_posted :: "jsval \<Rightarrow> fields \<Rightarrow> fields" where
  "enrich_date_posted jsonLd out =
     out\<lparr>date_posted := js_or (js_get jsonLd ''datePosted'') (date_posted out)\<rparr>"

text \<open>
  \<^verbatim>\<open>if (jsonLd.employmentType) {
    const empType = Array.isArray(jsonLd.employmentType) ? jsonLd.employmentType[0] : jsonLd.employmentType;
    out.job_type = empType.replace(/_/g, ' ').replace(/\b\w/g, l => l.toUpperCase());
  }\<close>
  \<open>empType.replace\<close> throws a \<open>TypeError\<close> unless \<open>empType\<close> is a string.
\<close>

definition upper_char :: "char \<Rightarrow> char" where
  "upper_char c =
     (case map_of (zip ''abcdefghijklmnopqrstuvwxyz'' ''ABCDEFGHIJKLMNOPQRSTUVWXYZ'') c of
        Some u \<Rightarrow> u | None \<Rightarrow> c)"

text \<open>\<open>.replace(/\b\w/g, l => l.toUpperCase())\<close>; the flag says whether the previous character
  is a word character.\<close>

fun capitalize_words :: "bool \<Rightarrow> string \<Rightarrow> string" where
  "capitalize_words w [] = []"
| "capitalize_words w (c # cs) =
     (if is_word c \<and> \<not> w then upper_char c else c) # capitalize_words (is_word c) cs"

definition enrich_job_type :: "jsval \<Rightarrow> fields \<Rightarrow> error + fields" where
  "enrich_job_type jsonLd out =
     (let employmentType = js_get jsonLd ''employmentType'' in
      if truthy employmentType then
        (case (if isArray employmentType then first_elem employmentType else employmentType) of
           JStr empType \<Rightarrow>
             Inr (out\<lparr>job_type :=
                    JStr (capitalize_words False
                            (map (\<lambda>c. if c = CHR ''_'' then CHR '' '' else c) empType))\<rparr>)
         | _ \<Rightarrow> Inl TypeError)
      else Inr out)"

text \<open>
  \<^verbatim>\<open>const locNode = jsonLd.jobLocation || jsonLd.jobLocationType;
  if (locNode && typeof locNode === 'object') {
    const addr = Array.isArray(locNode) ? locNode[0]?.address : locNode.address;
    if (addr) {
      if (addr.streetAddress) {
        out.location = addr.streetAddress;
      } else {
        const parts = [addr.addressLocality, addr.addressRegion, addr.addressCountry].filter(Boolean);
        if (parts.length) out.location = out.location || parts.join(', ');
      }
    }
  }\<close>
\<close>

definition enrich_location :: "jsval \<Rightarrow> fields \<Rightarrow> fields" where
  "enrich_location jsonLd out =
     (let locNode = js_or (js_get jsonLd ''jobLocation'') (js_get jsonLd ''jobLocationType'') in
      if truthy locNode \<and> typeof_object locNode then
        (let addr = (if isArray locNode then js_opt_get (first_elem locNode) ''address''
                     else js_get locNode ''address'') in
         if truthy addr then
           (if truthy (js_get addr ''streetAddress'')
            then out\<lparr>location := js_get addr ''streetAddress''\<rparr>
            else
              (let parts = filter truthy [js_get addr ''addressLocality'',
                             js_get addr ''addressRegion'', js_get addr ''addressCountry''] in
               if parts \<noteq> []
               then out\<lparr>location := js_or (location out)
                                            (JStr (join '', '' (map js_toString parts)))\<rparr>
               else out))
         else out)
      else out)"

text \<open>
  \<^verbatim>\<open>const sal = jsonLd.baseSalary;
  if (sal) {
    const currency = sal.currency || sal.value?.currency || 'NGN';
    const val = sal.value || sal;
    const min = (val && (val.minValue ?? val.value ?? val.amount)) || '';
    const max = (val && (val.maxValue ?? '')) || '';
    if (min || max) {
      const mk = (n) => (n === '' ? '' : `${currency} ${Number(n).toLocaleString()}`);
      const range = [mk(min), mk(max)].filter(Boolean).join(' - ');
      out.salary_range = range || out.salary_range;
    }
  }\<close>
\<close>

definition enrich_salary :: "platform \<Rightarrow> jsval \<Rightarrow> fields \<Rightarrow> fields" where
  "enrich_salary env jsonLd out =
     (let sal = js_get jsonLd ''baseSalary'' in
      if truthy sal then
        (let currency = js_or (js_or (js_get sal ''currency'')
                                     (js_opt_get (js_get sal ''value'') ''currency''))
                              (JStr ''NGN'');
             val = js_or (js_get sal ''value'') sal;
             min = js_or (js_and val (js_coalesce (js_coalesce (js_get val ''minValue'')
                                                     (js_get val ''value''))
                                                  (js_get val ''amount'')))
                         (JStr []);
             max = js_or (js_and val (js_coalesce (js_get val ''maxValue'') (JStr []))) (JStr [])
         in if truthy min \<or> truthy max then
              (let mk = (\<lambda>n. if n = JStr [] then []
                              else js_toString currency @ '' '' @ pf_Number_toLocaleString env n);
                   range = join '' - '' (filter (\<lambda>s. s \<noteq> []) [mk min, mk max])
               in out\<lparr>salary_range := js_or (JStr range) (salary_range out)\<rparr>)
            else out)
      else out)"

text \<open>
  \<^verbatim>\<open>if (jsonLd.occupationalCategory && !out.category) {
    out.category = Array.isArray(jsonLd.occupationalCategory) ? jsonLd.occupationalCategory[0] : jsonLd.occupationalCategory;
  } else if (jsonLd.industry && !out.category) {
    out.category = Array.isArray(jsonLd.industry) ? jsonLd.industry[0] : jsonLd.industry;
  }\<close>
\<close>

definition enrich_category :: "jsval \<Rightarrow> fields \<Rightarrow> fields" where
  "enrich_category jsonLd out =
     (let occupationalCategory = js_get jsonLd ''occupationalCategory'';
          industry = js_get jsonLd ''industry'' in
      if truthy occupationalCategory \<and> \<not> truthy (category out) then
        out\<lparr>category := (if isArray occupationalCategory then first_elem occupationalCategory
                           else occupationalCategory)\<rparr>
      else if truthy industry \<and> \<not> truthy (category out) then
        out\<lparr>category := (if isArray industry then first_elem industry else industry)\<rparr>
      else out)"

text \<open>\<open>$wrap('div').first()\<close>: the first \<open>div\<close> of the parsed document, in document order.\<close>

fun first_div :: "node \<Rightarrow> node option" and first_div_list :: "node list \<Rightarrow> node option" where
  "first_div (Text s) = None"
| "first_div (Elem name attribs kids) =
     (if name = ''div'' then Some (Elem name attribs kids) else first_div_list kids)"
| "first_div_list [] = None"
| "first_div_list (n # ns) =
     (case first_div n of Some d \<Rightarrow> Some d | None \<Rightarrow> first_div_list ns)"

text \<open>
  \<^verbatim>\<open>if (jsonLd.description) {
    const $wrap = cheerioLoad(`<div>${jsonLd.description}</div>`);
    const frag = $wrap('div').first();
    out.description_html = sanitizeDescription($wrap, frag, baseUrl) || out.description_html;
    out.description_text = cleanText(frag.text()) || out.description_text;
  }\<close>
\<close>

definition description_fragment :: "platform \<Rightarrow> jsval \<Rightarrow> node list" where
  "description_fragment env description =
     (case first_div_list (pf_cheerioLoad env (''<div>'' @ js_toString description @ ''</div>'')) of
        None \<Rightarrow> []
      | Some d \<Rightarrow> [d])"

definition enrich_description :: "platform \<Rightarrow> jsval \<Rightarrow> string \<Rightarrow> fields \<Rightarrow> fields" where
  "enrich_description env jsonLd baseUrl out =
     (if truthy (js_get jsonLd ''description'') then
        (let frag = description_fragment env (js_get jsonLd ''description'') in
         out\<lparr>description_html :=
               js_or (JStr (sanitizeDescription env frag baseUrl)) (description_html out),
             description_text :=
               js_or (JStr (cleanText (concat (map text_of frag)))) (description_text out)\<rparr>)
      else out)"

text \<open>
  The description block of the CommonJS variant of \<open>enrichFromJsonLd\<close>, which sets both
  halves or neither:
  \<^verbatim>\<open>if (jsonLd.description) {
        const descRaw = jsonLd.description;
        const $desc = cheerio.load(`<div>${descRaw}</div>`);
        const fragment = $desc('div').first();
        const html = sanitizeDescription($desc, fragment, baseUrl);
        const text = cleanText(fragment.text());
        if (html && cleanText(text)) {
            out.description_html = html;
            out.description_text = text;
        }
    }\<close>
  Its \<open>sanitizeDescription\<close> is taken as a parameter here.
\<close>

definition enrich_description_cjs ::
    "(node list \<Rightarrow> string \<Rightarrow> string) \<Rightarrow> platform \<Rightarrow> jsval \<Rightarrow> string \<Rightarrow> fields \<Rightarrow> fields" where
  "enrich_description_cjs sanitize env jsonLd baseUrl out =
     (if truthy (js_get jsonLd ''description'') then
        (let fragment = description_fragment env (js_get jsonLd ''description'');
             html = sanitize fragment baseUrl;
             text = cleanText (concat (map text_of fragment))
         in if html \<noteq> [] \<and> cleanText text \<noteq> []
            then out\<lparr>description_html := JStr html, description_text := JStr text\<rparr>
            else out)
      else out)"

text \<open>
  \<^verbatim>\<open>const enrichFromJsonLd = (jsonLd, fields, baseUrl) => {
  if (!jsonLd) return fields;
  const out = { ...fields };
  ...
  return out;
};\<close>
  with the blocks above in the order title, company, date posted, employment type,
  location, salary, category, description.
\<close>

definition enrichFromJsonLd :: "platform \<Rightarrow> jsval \<Rightarrow> fields \<Rightarrow> string \<Rightarrow> error + fields" where
  "enrichFromJsonLd env jsonLd flds baseUrl =
     (if \<not> truthy jsonLd then Inr flds
      else
        (case enrich_job_type jsonLd
                (enrich_date_posted jsonLd (enrich_company jsonLd (enrich_title jsonLd flds))) of
           Inl e \<Rightarrow> Inl e
         | Inr out \<Rightarrow>
             Inr (enrich_description env jsonLd baseUrl
                    (enrich_category jsonLd (enrich_salary env jsonLd
                       (enrich_location jsonLd out))))))"

section \<open>Detail extraction: \<open>extractFromDetail\<close>\<close>

text \<open>
  The seed harvested from a listing card: \<open>request.userData?.seed || {}\<close>, each field read
  as \<open>seed.f || ''\<close>, so a missing field is the empty string.
\<close>

record seed =
  seed_title :: string
  seed_company :: string
  seed_job_type :: string
  seed_location :: string
  seed_salary_range :: string
  seed_category :: string

definition empty_seed :: seed where
  "empty_seed = \<lparr>seed_title = [], seed_company = [], seed_job_type = [], seed_location = [],
     seed_salary_range = [], seed_category = []\<rparr>"

text \<open>
  A detail page as the extraction sees it: what \<open>pickFirst\<close> finds for the selectors of
  each field (the first element of the first selector with a match), the candidate block
  after a "Description" heading, the block \<open>biggestTextBlockHeuristic\<close> picks, the match of
  \<open>extractDatePosted\<close>, and the parsed JSON-LD scripts.
\<close>

record detail_page =
  pick_title :: "node option"
  pick_company :: "node option"
  pick_job_type :: "node option"
  pick_location :: "node option"
  pick_salary :: "node option"
  pick_category :: "node option"
  pick_description :: "node option"
  heading_block :: "node option"
  biggest_block :: "node option"
  date_match :: "string option"
  ld_scripts :: "jsval list"

text \<open>
  \<^verbatim>\<open>const getFullText = ($el) => {
  if (!$el || !$el.length) return '';
  const rich = $el.attr('title') || $el.attr('aria-label') || $el.attr('data-title') || '';
  return cleanText(rich || $el.text());
};\<close>
\<close>

definition getFullText :: "node option \<Rightarrow> string" where
  "getFullText el =
     (case el of
        None \<Rightarrow> []
      | Some e \<Rightarrow>
          (let rich = or_str (or_str (attr e ''title'') (attr e ''aria-label''))
                             (attr e ''data-title'') in
           cleanText (if truthy_str rich then the rich else text_of e)))"

text \<open>\<open>deEllipsize(getFullText($x)) || x\<close>: the cascade value, else the seed value.\<close>

definition cascade :: "node option \<Rightarrow> string \<Rightarrow> string" where
  "cascade el seed_value =
     (if deEllipsize (getFullText el) \<noteq> [] then deEllipsize (getFullText el) else seed_value)"

text \<open>
  \<^verbatim>\<open>let $desc = pickFirst($, sel.description);
  if ($desc && $desc.length) {
    description_html = sanitizeDescription($, $desc.clone(), request.url);
    description_text = cleanText($desc.text());
  }
  if (!description_text || description_text.length < 100) {
    const heading = $('h1:contains("Description"), ...').first();
    if (heading && heading.length) {
      let $cand = heading.nextAll('div, section').first();
      if (!$cand.length) $cand = heading.parent();
      if ($cand && $cand.length) {
        const cand_html = sanitizeDescription($, $cand.clone(), request.url);
        const cand_text = cleanText($cand.text());
        if (cand_text.length > description_text.length) {
            description_html = cand_html;
            description_text = cand_text;
        }
      }
    }
  }
  if (!description_text || description_text.length < 100) {
    const $big = biggestTextBlockHeuristic($);
    if ($big) { ... the same with $big ... }
  }\<close>
\<close>

definition better_block :: "platform \<Rightarrow> string \<Rightarrow> node option \<Rightarrow> string \<times> string
    \<Rightarrow> string \<times> string" where
  "better_block env url cand cur =
     (if snd cur = [] \<or> length (snd cur) < 100 then
        (case cand of
           None \<Rightarrow> cur
         | Some c \<Rightarrow>
             (let cand_html = sanitizeDescription env [c] url;
                  cand_text = cleanText (text_of c) in
              if length cand_text > length (snd cur) then (cand_html, cand_text) else cur))
      else cur)"

definition cascade_description :: "platform \<Rightarrow> string \<Rightarrow> detail_page \<Rightarrow> string \<times> string" where
  "cascade_description env url page =
     better_block env url (biggest_block page)
       (better_block env url (heading_block page)
          (case pick_description page of
             None \<Rightarrow> ([], [])
           | Some d \<Rightarrow> (sanitizeDescription env [d] url, cleanText (text_of d))))"

text \<open>The record that \<open>extractFromDetail\<close> has built before it turns to the JSON-LD.\<close>

definition cascade_fields :: "platform \<Rightarrow> string \<Rightarrow> seed \<Rightarrow> detail_page \<Rightarrow> fields" where
  "cascade_fields env url sd page =
     \<lparr>title = JStr (cascade (pick_title page) (seed_title sd)),
      company = JStr (cascade (pick_company page) (seed_company sd)),
      job_type = JStr (cascade (pick_job_type page) (seed_job_type sd)),
      location = JStr (cascade (pick_location page) (seed_location sd)),
      salary_range = JStr (cascade (pick_salary page) (seed_salary_range sd)),
      category = JStr (cascade (pick_category page) (seed_category sd)),
      description_html = JStr (fst (cascade_description env url page)),
      description_text = JStr (snd (cascade_description env url page)),
      date_posted = JStr (case date_match page of None \<Rightarrow> [] | Some d \<Rightarrow> d)\<rparr>"

record item = fields +
  url :: string

text \<open>
  \<^verbatim>\<open>const extractFromDetail = ({ request, $ }) => {
  ...
  const jsonLd = parseJsonLdJob($);
  ({ title, company, job_type, location, salary_range, category, description_html,
     description_text, date_posted } =
    enrichFromJsonLd(jsonLd, { title, ..., date_posted }, request.url));
  return { url: request.url, title, company, job_type, location, salary_range, category,
           description_html, description_text, date_posted };
};\<close>
\<close>

definition extractFromDetail :: "platform \<Rightarrow> string \<Rightarrow> seed \<Rightarrow> detail_page \<Rightarrow> error + item" where
  "extractFromDetail env request_url sd page =
     (case enrichFromJsonLd env (parseJsonLdJob (ld_scripts page))
             (cascade_fields env request_url sd page) request_url of
        Inl e \<Rightarrow> Inl e
      | Inr out \<Rightarrow> Inr (fields.extend out (item.fields request_url)))"

section \<open>Crawl Quota Controller: the request handler\<close>

text \<open>
  A list page as the handler sees it: the links of \<open>collectJobLinks\<close>, the seeds of
  \<open>seedsByUrl\<close> and the "next" links. A document serves either branch of the handler.
\<close>

record list_page =
  links :: "string list"
  seedsByUrl :: "string \<Rightarrow> seed option"
  next_links_of :: next_links

record document =
  as_list :: list_page
  as_detail :: detail_page

datatype request = LIST string int | DETAIL string seed

record config =
  RESULTS_WANTED :: int
  MAX_PAGES :: int
  collectDetails :: bool

datatype level = Info | Warning | Error

text \<open>The context of a list page that its handler keeps across an \<open>await\<close>.\<close>

record list_ctx =
  ctx_url :: string
  ctx_pageNo :: int
  ctx_page :: list_page

text \<open>
  A handler is suspended at an \<open>await\<close>; what it does when it resumes:
  after \<open>await Dataset.pushData(items)\<close> on a list page, \<open>jobsScraped += items.length\<close>;
  after \<open>await enqueueLinks(...)\<close> in the loop of a list page, \<open>jobsEnqueued++\<close> and the
  rest of the loop; after \<open>await Dataset.pushData(item)\<close> on a detail page,
  \<open>jobsScraped++; scrapedUrls.add(request.url)\<close>.
\<close>

datatype task =
    AfterListPush list_ctx nat
  | AfterEnqueue list_ctx "string list"
  | AfterDetailPush string

text \<open>
  \<^verbatim>\<open>let jobsScraped = 0;
  let jobsEnqueued = 0;
  const scrapedUrls = new Set();\<close>
  together with what the handlers hand to the crawl engine: the records pushed to the
  dataset, the requests enqueued, the log, and the suspended handlers.
\<close>

record crawl_state =
  jobsScraped :: int
  jobsEnqueued :: int
  scrapedUrls :: "string set"
  dataset :: "item list"
  queue :: "request list"
  log :: "(level \<times> string) list"
  suspended :: "task list"

definition say :: "level \<Rightarrow> string \<Rightarrow> crawl_state \<Rightarrow> crawl_state" where
  "say lv msg s = s\<lparr>log := log s @ [(lv, msg)]\<rparr>"

text \<open>\<open>xs.slice(0, e)\<close>: a negative end counts from the end of the array.\<close>

definition slice0 :: "'a list \<Rightarrow> int \<Rightarrow> 'a list" where
  "slice0 xs e = (if e < 0 then take (nat (int (length xs) + e)) xs else take (nat e) xs)"

text \<open>
  \<^verbatim>\<open>if (jobsScraped >= RESULTS_WANTED || jobsEnqueued >= RESULTS_WANTED) { log.info(...); return; }
  if (pageNo >= MAX_PAGES) { log.info(...); return; }
  if (links.length === 0) { log.warning(...); return; }
  const nextUrl = findNextUrl($, request.url);
  if (nextUrl) {
    await enqueueLinks({ urls: [nextUrl], userData: { label: 'LIST', pageNo: pageNo + 1 }, forefront: true });
  } else { log.info(...); }\<close>
\<close>

definition paginate :: "config \<Rightarrow> platform \<Rightarrow> list_ctx \<Rightarrow> crawl_state \<Rightarrow> crawl_state" where
  "paginate cfg env ctx s =
     (if jobsScraped s \<ge> RESULTS_WANTED cfg \<or> jobsEnqueued s \<ge> RESULTS_WANTED cfg
        then say Info ''Reached results_wanted limit. Stopping pagination.'' s
      else if ctx_pageNo ctx \<ge> MAX_PAGES cfg
        then say Info ''Reached max_pages limit. Stopping pagination.'' s
      else if links (ctx_page ctx) = []
        then say Warning ''No links found, stopping pagination for this branch.'' s
      else
        (let nextUrl = findNextUrl (pf_URL env) (next_links_of (ctx_page ctx)) (ctx_url ctx) in
         if truthy_str nextUrl
           then s\<lparr>queue := LIST (the nextUrl) (ctx_pageNo ctx + 1) # queue s\<rparr>
         else say Info ''No next link found.'' s))"

text \<open>
  \<^verbatim>\<open>for (const u of toEnqueue) {
    if (jobsEnqueued < RESULTS_WANTED && jobsScraped < RESULTS_WANTED) {
       await enqueueLinks({ urls: [u], userData: { label: 'DETAIL', seed: seedsByUrl.get(u) || {} } });
       jobsEnqueued++;
    }
  }\<close>
  run up to the next \<open>await\<close>, or to the end of the handler.
\<close>

fun enqueue_loop :: "config \<Rightarrow> platform \<Rightarrow> list_ctx \<Rightarrow> string list \<Rightarrow> crawl_state
    \<Rightarrow> crawl_state \<times> task option" where
  "enqueue_loop cfg env ctx [] s = (paginate cfg env ctx s, None)"
| "enqueue_loop cfg env ctx (u # us) s =
     (if jobsEnqueued s < RESULTS_WANTED cfg \<and> jobsScraped s < RESULTS_WANTED cfg
      then (s\<lparr>queue := queue s @
                  [DETAIL u (case seedsByUrl (ctx_page ctx) u of None \<Rightarrow> empty_seed
                             | Some sd \<Rightarrow> sd)]\<rparr>,
            Some (AfterEnqueue ctx us))
      else enqueue_loop cfg env ctx us s)"

text \<open>
  \<open>{ url: u, ...(seedsByUrl.get(u) || {}), _source: 'jobberman.com' }\<close>: the record pushed
  for a link when details are not collected.
\<close>

definition list_item :: "list_page \<Rightarrow> string \<Rightarrow> item" where
  "list_item page u =
     (case seedsByUrl page u of
        None \<Rightarrow>
          \<lparr>title = JUndefined, company = JUndefined, job_type = JUndefined,
           location = JUndefined, salary_range = JUndefined, category = JUndefined,
           description_html = JUndefined, description_text = JUndefined,
           date_posted = JUndefined, url = u\<rparr>
      | Some sd \<Rightarrow>
          \<lparr>title = JStr (seed_title sd), company = JStr (seed_company sd),
           job_type = JStr (seed_job_type sd), location = JStr (seed_location sd),
           salary_range = JStr (seed_salary_range sd), category = JStr (seed_category sd),
           description_html = JUndefined, description_text = JUndefined,
           date_posted = JUndefined, url = u\<rparr>)"

text \<open>
  The handler from its start to its first \<open>await\<close> (or to its end). The document is
  \<open>None\<close> when \<open>$\<close> is not available. An exception is caught and logged by the handler.

  \<^verbatim>\<open>if (label === 'LIST') {
    const links = collectJobLinks($, request.url);
    ...
    if (!collectDetails) {
      const toPush = links.slice(0, RESULTS_WANTED - jobsScraped);
      if (toPush.length > 0) {
        const items = toPush.map(u => ({ url: u, ...(seedsByUrl.get(u) || {}), _source: 'jobberman.com' }));
        await Dataset.pushData(items);
        jobsScraped += items.length;
      }
    } else {
      const toEnqueue = links.slice(0, RESULTS_WANTED - jobsEnqueued);
      for (const u of toEnqueue) { ... }
    }
    ...
  }
  if (label === 'DETAIL') {
    if (jobsScraped >= RESULTS_WANTED) { log.info(...); return; }
    if (scrapedUrls.has(request.url)) { log.warning(...); return; }
    const item = extractFromDetail({ request, $ });
    if (!cleanText(item.title)) { log.warning(...); return; }
    await Dataset.pushData(item);
    jobsScraped++;
    scrapedUrls.add(request.url);
  }\<close>
\<close>

fun start :: "config \<Rightarrow> platform \<Rightarrow> request \<Rightarrow> document option \<Rightarrow> crawl_state
    \<Rightarrow> crawl_state \<times> task option" where
  "start cfg env req None s = (say Warning ''Skipping request, Cheerio object not available'' s, None)"
| "start cfg env (LIST request_url pageNo) (Some doc) s =
     (let ctx = \<lparr>ctx_url = request_url, ctx_pageNo = pageNo, ctx_page = as_list doc\<rparr> in
      if \<not> collectDetails cfg then
        (let toPush = slice0 (links (as_list doc)) (RESULTS_WANTED cfg - jobsScraped s) in
         if toPush \<noteq> []
         then (s\<lparr>dataset := dataset s @ map (list_item (as_list doc)) toPush\<rparr>,
               Some (AfterListPush ctx (length toPush)))
         else (paginate cfg env ctx s, None))
      else
        enqueue_loop cfg env ctx
          (slice0 (links (as_list doc)) (RESULTS_WANTED cfg - jobsEnqueued s)) s)"
| "start cfg env (DETAIL request_url sd) (Some doc) s =
     (if jobsScraped s \<ge> RESULTS_WANTED cfg
        then (say Info ''Skipping detail page, results_wanted limit already met.'' s, None)
      else if request_url \<in> scrapedUrls s
        then (say Warning ''Skipping duplicate detail URL'' s, None)
      else
        (case extractFromDetail env request_url sd (as_detail doc) of
           Inl e \<Rightarrow> (say Error ''Error in requestHandler'' s, None)
         | Inr it \<Rightarrow>
             if cleanText_val (title it) = []
             then (say Warning ''Skipping detail page with no title'' s, None)
             else (s\<lparr>dataset := dataset s @ [it]\<rparr>, Some (AfterDetailPush request_url))))"

text \<open>A suspended handler from where it resumes to its next \<open>await\<close> (or to its end).\<close>

fun resume :: "config \<Rightarrow> platform \<Rightarrow> task \<Rightarrow> crawl_state \<Rightarrow> crawl_state \<times> task option" where
  "resume cfg env (AfterListPush ctx n) s =
     (paginate cfg env ctx (s\<lparr>jobsScraped := jobsScraped s + int n\<rparr>), None)"
| "resume cfg env (AfterEnqueue ctx us) s =
     enqueue_loop cfg env ctx us (s\<lparr>jobsEnqueued := jobsEnqueued s + 1\<rparr>)"
| "resume cfg env (AfterDetailPush request_url) s =
     (say Info ''Saved''
        (s\<lparr>jobsScraped := jobsScraped s + 1,
           scrapedUrls := insert request_url (scrapedUrls s)\<rparr>), None)"

text \<open>
  A handler that runs from its start to its end with no other handler in between: the
  request handler as a function of the state.
\<close>

fun remaining :: "task option \<Rightarrow> nat" where
  "remaining (Some (AfterEnqueue ctx us)) = Suc (Suc (length us))"
| "remaining (Some t) = Suc 0"
| "remaining None = 0"

function finish :: "config \<Rightarrow> platform \<Rightarrow> crawl_state \<times> task option \<Rightarrow> crawl_state" where
  "finish cfg env (s, None) = s"
| "finish cfg env (s, Some t) = finish cfg env (resume cfg env t s)"
  by pat_completeness auto
termination
proof (relation "measure (\<lambda>(cfg, env, st). remaining (snd st))")
  show "wf (measure (\<lambda>(cfg, env, st). remaining (snd st)))" by simp
next
  fix cfg :: config and env :: platform and s :: crawl_state and t :: task
  have loop: "remaining (snd (enqueue_loop cfg env ctx us s')) < Suc (Suc (length us))"
    for ctx us s'
    by (induction us) (auto simp: less_Suc_eq)
  have "remaining (snd (resume cfg env t s)) < remaining (Some t)"
    using loop by (cases t) (auto simp: less_Suc_eq)
  then show "((cfg, env, resume cfg env t s), (cfg, env, s, Some t))
      \<in> measure (\<lambda>(cfg, env, st). remaining (snd st))"
    by simp
qed

definition requestHandler :: "config \<Rightarrow> platform \<Rightarrow> request \<Rightarrow> document option \<Rightarrow> crawl_state
    \<Rightarrow> crawl_state" where
  "requestHandler cfg env req doc s = finish cfg env (start cfg env req doc s)"

text \<open>
  The crawl engine runs up to \<open>maxConcurrency: 20\<close> handlers at a time; JavaScript is
  single-threaded, so they interleave at their \<open>await\<close>s. A step of the crawl either takes
  a request from the queue and runs its handler to its first \<open>await\<close>, on whatever
  document the site returns, or resumes a suspended handler.
\<close>

definition park :: "task option \<Rightarrow> task list \<Rightarrow> task list" where
  "park t ts = (case t of None \<Rightarrow> ts | Some k \<Rightarrow> k # ts)"

inductive crawl_step :: "config \<Rightarrow> platform \<Rightarrow> crawl_state \<Rightarrow> crawl_state \<Rightarrow> bool"
  for cfg :: config and env :: platform where
  launch:
    "req \<in> set (queue s) \<Longrightarrow> length (suspended s) < 20 \<Longrightarrow>
     start cfg env req doc (s\<lparr>queue := remove1 req (queue s)\<rparr>) = (s', t) \<Longrightarrow>
     crawl_step cfg env s (s'\<lparr>suspended := park t (suspended s)\<rparr>)"
| wake:
    "k \<in> set (suspended s) \<Longrightarrow>
     resume cfg env k s = (s', t) \<Longrightarrow>
     crawl_step cfg env s (s'\<lparr>suspended := park t (remove1 k (suspended s))\<rparr>)"

text \<open>
  \<open>crawler.run(initialUrls.map(u => ({ url: u, userData: { label: 'LIST', pageNo: 1 } })))\<close>
\<close>

definition initial :: "string list \<Rightarrow> crawl_state" where
  "initial initialUrls =
     \<lparr>jobsScraped = 0, jobsEnqueued = 0, scrapedUrls = {}, dataset = [],
      queue = map (\<lambda>u. LIST u 1) initialUrls, log = [], suspended = []\<rparr>"

definition reachable :: "config \<Rightarrow> platform \<Rightarrow> string list \<Rightarrow> crawl_state \<Rightarrow> bool" where
  "reachable cfg env initialUrls s = (crawl_step cfg env)\<^sup>*\<^sup>* (initial initialUrls) s"



section \<open>Quantities of a crawl state\<close>







definition count :: "('a \<Rightarrow> bool) \<Rightarrow> 'a list \<Rightarrow> nat" where
  "count P xs = length (filter P xs)"



section \<open>Sample inputs\<close>

text \<open>Concrete inputs on which the closed theorems below evaluate the code.\<close>

definition sample_platform :: platform where
  "sample_platform =
     \<lparr>pf_URL = \<lambda>href base. Some href, pf_cheerioLoad = \<lambda>html. [],
      pf_parseFragment = \<lambda>markup. [Text markup], pf_Number_toLocaleString = \<lambda>n. []\<rparr>"

definition blank_page :: detail_page where
  "blank_page =
     \<lparr>pick_title = None, pick_company = None, pick_job_type = None, pick_location = None,
      pick_salary = None, pick_category = None, pick_description = None,
      heading_block = None, biggest_block = None, date_match = None, ld_scripts = []\<rparr>"

definition no_next :: next_links where
  "no_next = \<lparr>next_page_text = None, next_rel = None, next_goto = None\<rparr>"

text \<open>A document whose list view has the given links and whose detail view has the given
  text in its \<open>h1\<close>.\<close>

definition sample_doc :: "string list \<Rightarrow> string \<Rightarrow> document" where
  "sample_doc ls t =
     \<lparr>as_list = \<lparr>links = ls, seedsByUrl = \<lambda>u. None, next_links_of = no_next\<rparr>,
      as_detail = blank_page\<lparr>pick_title := Some (Elem ''h1'' [] [Text t])\<rparr>\<rparr>"

definition sample_item :: "string \<Rightarrow> string \<Rightarrow> item" where
  "sample_item u t =
     \<lparr>title = JStr t, company = JStr [], job_type = JStr [], location = JStr [],
      salary_range = JStr [], category = JStr [], description_html = JStr [],
      description_text = JStr [], date_posted = JStr [], url = u\<rparr>"

section \<open>Properties\<close>

subsection \<open>Digits\<close>

lemmas char_classes = is_space_def is_digit_def is_alpha_def is_word_def is_amount_char_def

lemma lt10_cases:
  "d < 10 \<Longrightarrow> d = 0 \<or> d = 1 \<or> d = 2 \<or> d = 3 \<or> d = 4 \<or> d = 5 \<or> d = 6 \<or> d = 7 \<or> d = 8 \<or> d = (9::nat)"
  by arith


lemma is_digit_nth: "d < 10 \<Longrightarrow> is_digit (''0123456789'' ! d)"
  by (drule lt10_cases, elim disjE) (simp_all add: is_digit_def)



lemma digits_of_all_digits: "list_all is_digit (digits_of n)"
  by (induction n rule: digits_of.induct) (simp_all add: is_digit_nth)

lemma digits_of_nonempty: "digits_of n \<noteq> []"
  by (induction n rule: digits_of.induct) simp_all

subsection \<open>Doubles\<close>

lemma bit_length_le: "bit_length n \<le> b \<longleftrightarrow> n < 2 ^ b"
proof (induction n arbitrary: b rule: bit_length.induct)
  case (1 n)
  then show ?case by simp
next
  case (2 n)
  show ?case
  proof (cases b)
    case 0
    with 2 show ?thesis by simp
  next
    case (Suc b')
    have "n div 2 < 2 ^ b' \<longleftrightarrow> n < 2 * 2 ^ b'" by auto
    with 2 Suc show ?thesis by simp
  qed
qed

lemma to_double_exact: "n \<le> 2 ^ 53 \<Longrightarrow> to_double n = Finite n"
proof (cases "n = 2 ^ 53")
  case True
  then show ?thesis by (simp add: to_double_def)
next
  case False
  assume "n \<le> 2 ^ 53"
  with False have n: "n < 2 ^ 53" by simp
  then have "bit_length n \<le> 53" using bit_length_le [of n 53] by blast
  then have b: "bit_length n - 53 = 0" by simp
  have "(2::nat) ^ 53 \<le> 2 ^ 1024" by (rule power_increasing) simp_all
  with n have "n < 2 ^ 1024" by (rule less_le_trans)
  then show ?thesis by (simp add: to_double_def b)
qed

lemma to_double_above:
  assumes "2 ^ 53 + 2 \<le> n" and "to_double n = Finite m"
  shows "2 ^ 53 + 2 \<le> m"
proof -
  define e where "e = bit_length n - 53"
  define q where "q = n div 2 ^ e"
  define r where "r = n mod 2 ^ e"
  define m' where "m' = (if 2 * r < 2 ^ e \<or> (2 * r = 2 ^ e \<and> even q) then q else q + 1)"
  have m: "m = m' * 2 ^ e"
    using assms(2) unfolding to_double_def Let_def e_def [symmetric] q_def [symmetric]
      r_def [symmetric] m'_def [symmetric] by (simp split: if_splits)
  have "\<not> n < 2 ^ 53" using assms(1) by simp
  then have b: "\<not> bit_length n \<le> 53" using bit_length_le [of n 53] by blast
  then have e1: "1 \<le> e" and be: "bit_length n = e + 53" by (simp_all add: e_def)
  have "\<not> bit_length n \<le> e + 52" using be by simp
  then have "\<not> n < 2 ^ (e + 52)" using bit_length_le [of n "e + 52"] by blast
  then have lo: "2 ^ (e + 52) \<le> n" by simp
  have qm: "q \<le> m'" by (simp add: m'_def)
  show ?thesis
  proof (cases "e = 1")
    case True
    then have "q = n div 2" by (simp add: q_def)
    with assms(1) have "2 ^ 52 + 1 \<le> q" by simp
    with qm have "2 ^ 52 + 1 \<le> m'" by simp
    then have "(2 ^ 52 + 1) * 2 \<le> m' * 2" by simp
    with True show ?thesis by (simp add: m)
  next
    case False
    with e1 have e2: "2 \<le> e" by simp
    have "(2::nat) ^ 52 * 2 ^ e \<le> n" using lo by (simp add: power_add mult.commute)
    then have "2 ^ 52 \<le> q" unfolding q_def by (simp add: less_eq_div_iff_mult_less_eq)
    with qm have m52: "2 ^ 52 \<le> m'" by simp
    have "(2::nat) ^ 2 \<le> 2 ^ e" using e2 by (intro power_increasing) simp_all
    with m52 have "(2::nat) ^ 52 * 2 ^ 2 \<le> m' * 2 ^ e" by (rule mult_le_mono)
    then show ?thesis by (simp add: m)
  qed
qed

lemma digits_of_length_upper: "x < 10 ^ length (digits_of x)"
proof (induction x rule: digits_of.induct)
  case (1 n)
  then show ?case by simp
next
  case (2 n)
  have "n < 10 * 10 ^ length (digits_of (n div 10))" using 2 by simp
  with 2 show ?case by simp
qed

lemma digits_of_length_lower: "x \<noteq> 0 \<Longrightarrow> 10 ^ (length (digits_of x) - 1) \<le> x"
proof (induction x rule: digits_of.induct)
  case (1 n)
  then show ?case by simp
next
  case (2 n)
  from 2 have "n div 10 \<noteq> 0" by simp
  with 2 have "10 ^ (length (digits_of (n div 10)) - 1) \<le> n div 10" by simp
  then have "10 * 10 ^ (length (digits_of (n div 10)) - 1) \<le> n" by simp
  moreover have "length (digits_of (n div 10)) \<noteq> 0"
    by (induction "n div 10" rule: digits_of.induct) simp_all
  ultimately show ?case using 2
    by (cases "length (digits_of (n div 10))") simp_all
qed

lemma digits_of_shift: "0 < s \<Longrightarrow> digits_of (s * 10 ^ j) = digits_of s @ replicate j CHR ''0''"
proof (induction j)
  case 0
  then show ?case by simp
next
  case (Suc j)
  have "\<not> s * 10 ^ Suc j < 10" using Suc.prems by simp
  then have "digits_of (s * 10 ^ Suc j)
      = digits_of (s * 10 ^ Suc j div 10) @ [''0123456789'' ! (s * 10 ^ Suc j mod 10)]"
    by simp
  also have "s * 10 ^ Suc j div 10 = s * 10 ^ j" by simp
  also have "s * 10 ^ Suc j mod 10 = 0" by simp
  finally show ?case using Suc by (simp add: replicate_append_same)
qed

lemma digits_at_exact:
  assumes "x \<le> 2 ^ 53" and "1 \<le> k" and "k < length (digits_of x)"
    and "digits_at x k = Some (n, s)"
  shows "n = length (digits_of x) \<and> s * 10 ^ (n - k) = x"
proof -
  define L where "L = length (digits_of x)"
  define p :: nat where "p = 10 ^ (L - k)"
  define lo where "lo = x div p"
  have p0: "0 < p" by (simp add: p_def)
  have "L - k = Suc (L - k - 1)" using assms(3) by (simp add: L_def)
  then have "p = 10 * 10 ^ (L - k - 1)" unfolding p_def by (metis power_Suc)
  then have ev: "even (a * p)" for a by simp
  have lo_le: "lo * p \<le> x" by (simp add: lo_def)
  have odd53: "odd ((2::nat) ^ 53 + 1)" by simp
  have no_round: False if "x < v" "even v" "to_double v = Finite x" for v
  proof (cases "v \<le> 2 ^ 53")
    case True
    from to_double_exact [OF True] that show False by simp
  next
    case False
    show False
    proof (cases "2 ^ 53 + 2 \<le> v")
      case True
      from to_double_above [OF True that(3)] assms(1) show False by simp
    next
      case b: False
      with False have "v = 2 ^ 53 + 1" by simp
      with that(2) odd53 show False by simp
    qed
  qed
  have rep_lo: "lo * p = x" if "represents x L k lo"
  proof -
    from lo_le assms(1) have "lo * p \<le> 2 ^ 53" by simp
    from to_double_exact [OF this] that show ?thesis by (simp add: represents_def p_def)
  qed
  have rep_hi: False if "represents x L k (lo + 1)"
  proof -
    have "x < (lo + 1) * p" using p0 unfolding lo_def
      by (metis Suc_eq_plus1 dividend_less_div_times mult.commute mult_Suc_right add.commute)
    from no_round [OF this ev] that show False by (simp add: represents_def p_def)
  qed
  have rep_1: False if "represents x (L + 1) 1 1"
  proof -
    have a: "x < 10 ^ L" using digits_of_length_upper [of x] by (simp add: L_def)
    have "L = Suc (L - 1)" using assms(2,3) by (simp add: L_def)
    then have "(10::nat) ^ L = 10 * 10 ^ (L - 1)" by (metis power_Suc)
    then have b: "even ((10::nat) ^ L)" by simp
    from that have c: "to_double (10 ^ L) = Finite x" by (simp add: represents_def)
    from no_round [OF a b c] show False .
  qed
  from assms(4) have "n = L \<and> s = lo \<and> represents x L k lo"
    unfolding digits_at_def Let_def L_def [symmetric] p_def [symmetric] lo_def [symmetric]
    using rep_hi rep_1 by (auto split: if_splits)
  with rep_lo show ?thesis by (simp add: L_def p_def)
qed

lemma shortest_exact:
  assumes "x \<le> 2 ^ 53" and "shortest x = (n, k, s)"
  shows "n = length (digits_of x) \<and> k \<le> n \<and> s * 10 ^ (n - k) = x"
proof (cases "find (\<lambda>k. digits_at x k \<noteq> None) [1..<length (digits_of x)]")
  case None
  with assms(2) show ?thesis by (auto simp: shortest_def Let_def)
next
  case (Some k')
  then have k': "1 \<le> k'" "k' < length (digits_of x)" and d: "digits_at x k' \<noteq> None"
    by (auto simp: find_Some_iff)
  from d obtain n' s' where ns: "digits_at x k' = Some (n', s')" by auto
  from digits_at_exact [OF assms(1) k' ns] assms(2) Some ns k' show ?thesis
    by (auto simp: shortest_def Let_def)
qed

lemma decimal_length_53: "x \<le> 2 ^ 53 \<Longrightarrow> length (digits_of x) \<le> 16"
proof (cases "x = 0")
  case True
  then show ?thesis by simp
next
  case False
  assume "x \<le> 2 ^ 53"
  with digits_of_length_lower [OF False] have "(10::nat) ^ (length (digits_of x) - 1) < 10 ^ 16"
    by simp
  then have "length (digits_of x) - 1 < 16" by (rule power_less_imp_less_exp [rotated]) simp
  then show ?thesis by simp
qed

lemma Number_toString_exact: "x \<le> 2 ^ 53 \<Longrightarrow> Number_toString (Finite x) = digits_of x"
proof (cases "x = 0")
  case True
  then show ?thesis by (simp add: Number_toString_def)
next
  case False
  assume x: "x \<le> 2 ^ 53"
  obtain n k s where sh: "shortest x = (n, k, s)" by (cases "shortest x")
  have n: "n = length (digits_of x)" and k: "k \<le> n" and s: "s * 10 ^ (n - k) = x"
    using shortest_exact [OF x sh] by blast+
  from s False have "0 < s" by (cases s) auto
  from digits_of_shift [OF this, of "n - k"] s
  have "digits_of s @ replicate (n - k) CHR ''0'' = digits_of x" by simp
  moreover from decimal_length_53 [OF x] n have "n \<le> 21" by simp
  ultimately show ?thesis using False sh by (simp add: Number_toString_def)
qed


lemma Number_exact: "nat_of_digits s \<le> 2 ^ 53 \<Longrightarrow> Number s = Finite (nat_of_digits s)"
  by (simp add: Number_def to_double_exact)

lemma toLocaleString_exact:
  "x \<le> 2 ^ 53 \<Longrightarrow> toLocaleString (Finite x) = rev (group3 (rev (digits_of x)))"
proof (cases "x = 0")
  case True
  then show ?thesis by (simp add: toLocaleString_def)
next
  case False
  assume x: "x \<le> 2 ^ 53"
  obtain n k s where sh: "shortest x = (n, k, s)" by (cases "shortest x")
  have s: "s * 10 ^ (n - k) = x" using shortest_exact [OF x sh] by blast
  from s False have "0 < s" by (cases s) auto
  from digits_of_shift [OF this, of "n - k"] s
  have e: "digits_of s @ replicate (n - k) CHR ''0'' = digits_of x" by simp
  have "toLocaleString (Finite x) = rev (group3 (rev (digits_of s @ replicate (n - k) CHR ''0'')))"
    using False sh by (simp add: toLocaleString_def del: rev_append rev_replicate)
  then show ?thesis by (simp only: e)
qed


subsection \<open>Pagination\<close>






lemma strip_prefix_Some_eq: "strip_prefix p s = Some r \<Longrightarrow> s = p @ r"
  by (induction p s rule: strip_prefix.induct) (auto split: if_splits)

lemma page_at_Some_form:
  assumes "page_at s = Some (sep, ds, rest)"
  shows "s = sep # ''page='' @ ds @ rest \<and> (sep = CHR ''?'' \<or> sep = CHR ''&'') \<and> ds \<noteq> [] \<and>
         list_all is_digit ds \<and> (rest = [] \<or> \<not> is_digit (hd rest))"
proof -
  from assms obtain cs r where s: "s = sep # cs" and sep: "sep = CHR ''?'' \<or> sep = CHR ''&''"
    and r: "strip_prefix ''page='' cs = Some r" and ds: "ds = takeWhile is_digit r" "ds \<noteq> []"
    and rest: "rest = dropWhile is_digit r"
    by (auto simp: page_at_def split: list.splits if_splits option.splits)
  have "r = ds @ rest" using ds rest by simp
  moreover have "rest = [] \<or> \<not> is_digit (hd rest)"
    unfolding rest by (metis hd_dropWhile)
  moreover have "list_all is_digit ds"
    unfolding ds by (simp add: list_all_iff) (meson set_takeWhileD)
  ultimately show ?thesis using s sep ds(2) strip_prefix_Some_eq [OF r] by simp
qed

lemma page_search_Some_form:
  "page_search s = Some (pre, sep, ds, rest) \<Longrightarrow>
     s = pre @ sep # ''page='' @ ds @ rest \<and> page_search pre = None \<and>
     (sep = CHR ''?'' \<or> sep = CHR ''&'') \<and> ds \<noteq> [] \<and> list_all is_digit ds \<and>
     (rest = [] \<or> \<not> is_digit (hd rest))"
proof (induction s arbitrary: pre)
  case Nil
  then show ?case by simp
next
  case (Cons c cs)
  show ?case
  proof (cases "page_at (c # cs)")
    case (Some m)
    with Cons.prems have "pre = []" "m = (sep, ds, rest)" by (auto split: prod.splits)
    with page_at_Some_form [of "c # cs" sep ds rest] Some show ?thesis by simp
  next
    case None
    with Cons.prems obtain pre' where p: "pre = c # pre'"
      and q: "page_search cs = Some (pre', sep, ds, rest)"
      by (auto split: option.splits)
    from Cons.IH [OF q] have ih: "cs = pre' @ sep # ''page='' @ ds @ rest"
      "page_search pre' = None" "sep = CHR ''?'' \<or> sep = CHR ''&''" "ds \<noteq> []"
      "list_all is_digit ds" "rest = [] \<or> \<not> is_digit (hd rest)" by simp_all
    have "page_at (c # pre') = None"
    proof (rule ccontr)
      assume "page_at (c # pre') \<noteq> None"
      then obtain s' d' r' where m: "page_at (c # pre') = Some (s', d', r')" by auto
      from page_at_Some_form [OF m] have f: "c # pre' = s' # ''page='' @ d' @ r'"
        "s' = CHR ''?'' \<or> s' = CHR ''&''" "d' \<noteq> []" "list_all is_digit d'" by simp_all
      then obtain x xs where d': "d' = x # xs" "is_digit x" by (cases d') auto
      have "page_at (s' # ''page='' @ (x # xs) @ (r' @ sep # ''page='' @ ds @ rest)) \<noteq> None"
        using f(2) d'(2) by (auto simp: page_at_def)
      moreover have "c # cs = s' # ''page='' @ (x # xs) @ (r' @ sep # ''page='' @ ds @ rest)"
        using ih(1) f(1) d'(1) by simp
      ultimately show False using None by simp
    qed
    with ih(2) have "page_search pre = None" unfolding p by simp
    with ih p show ?thesis by simp
  qed
qed



text \<open>
  As stated for every page number, C7 fails from \<open>2^53\<close> on, where the sum of the code is
  a rounded one: the page after \<open>9007199254740993\<close> is \<open>9007199254740992\<close>.
\<close>

theorem findNextUrl_rounding_counterexample:
  "findNextUrl (\<lambda>href base. None) \<lparr>next_page_text = None, next_rel = None, next_goto = None\<rparr>
       ''https://site/jobs?page=9007199254740993''
     = Some ''https://site/jobs?page=9007199254740992''"
proof -
  let ?nl = "\<lparr>next_page_text = None, next_rel = None, next_goto = None\<rparr>"
  have nl: "\<not> truthy_str (or_str (or_str (next_page_text ?nl) (next_rel ?nl)) (next_goto ?nl))"
    by (simp add: or_str_def truthy_str_def)
  have p: "page_search ''https://site/jobs?page=9007199254740993''
             = Some (''https://site/jobs'', CHR ''?'', ''9007199254740993'', [])"
    by (simp add: page_at_def is_digit_def)
  have "nat_of_digits ''9007199254740993'' = 9007199254740993"
    by (simp add: nat_of_digits_def digit_val_def)
  then have a: "parseInt ''9007199254740993'' = Finite 9007199254740992"
    by (simp add: parseInt_def to_double_def)
  have b: "plus_one (Finite 9007199254740992) = Finite 9007199254740992"
    by (simp add: to_double_def)
  have c: "Number_toString (Finite 9007199254740992) = digits_of 9007199254740992"
    by (rule Number_toString_exact) simp
  have d: "digits_of 9007199254740992 = ''9007199254740992''" by simp
  have r: "Number_toString (plus_one (parseInt ''9007199254740993'')) = ''9007199254740992''"
    by (simp only: a b c d)
  show ?thesis unfolding findNextUrl_def Let_def p using nl by (simp add: r)
qed

subsection \<open>Salary\<close>

text \<open>
  Claim C8. The card line \<open>NGN 150,000 - 250,000\<close> is parsed into the currency \<open>NGN\<close>, the
  minimum 150000 and the maximum 250000, and rendered as \<open>NGN 150,000 - NGN 250,000\<close>; the
  line \<open>NGN 80,000\<close> is rendered as the single amount \<open>NGN 80,000\<close>, without a range
  separator.
\<close>

theorem salary_line_examples:
  "salary_search None ''NGN 150,000 - 250,000'' = Some (''NGN'', ''150,000'', None, Some ''250,000'') \<and>
   amount_of ''150,000'' = Finite 150000 \<and> amount_of ''250,000'' = Finite 250000 \<and>
   card_lines ''NGN 150,000 - 250,000'' = [''NGN 150,000 - 250,000''] \<and>
   card_salary_range ''NGN 150,000 - 250,000'' = ''NGN 150,000 - NGN 250,000'' \<and>
   salary_search None ''NGN 80,000'' = Some (''NGN'', ''80,000'', None, None) \<and>
   card_salary_range ''NGN 80,000'' = ''NGN 80,000'' \<and>
   CHR ''-'' \<notin> set (card_salary_range ''NGN 80,000'')"
proof -
  have l1: "card_lines ''NGN 150,000 - 250,000'' = [''NGN 150,000 - 250,000'']"
    by (simp add: card_lines_def cleanText_def trim_def is_nbsp_tab_cr_lf_def char_classes)
  have l2: "card_lines ''NGN 80,000'' = [''NGN 80,000'']"
    by (simp add: card_lines_def cleanText_def trim_def is_nbsp_tab_cr_lf_def char_classes)
  have m1: "salary_search None ''NGN 150,000 - 250,000''
              = Some (''NGN'', ''150,000'', None, Some ''250,000'')"
    by (simp add: salary_match_at_def range_tail_def char_classes)
  have m2: "salary_search None ''NGN 80,000'' = Some (''NGN'', ''80,000'', None, None)"
    by (simp add: salary_match_at_def range_tail_def char_classes)
  have a: "amount_of ''150,000'' = Finite 150000" "amount_of ''250,000'' = Finite 250000"
    "amount_of ''80,000'' = Finite 80000"
    by (simp_all add: amount_of_def Number_exact nat_of_digits_def digit_val_def)
  have t: "toLocaleString (Finite 150000) = ''150,000''"
    "toLocaleString (Finite 250000) = ''250,000''" "toLocaleString (Finite 80000) = ''80,000''"
    by (simp_all add: toLocaleString_exact)
  have s1: "salary_test ''NGN 150,000 - 250,000''" "salary_test ''NGN 80,000''"
    by (simp_all add: salary_test_def salary_test_at_def char_classes)
  have r1: "card_salary_range ''NGN 150,000 - 250,000'' = ''NGN 150,000 - NGN 250,000''"
    unfolding card_salary_range_def l1 salary_range_of_lines_def
    by (simp add: s1 m1 render_salary_def truthy_str_def a t del: salary_search.simps)
  have r2: "card_salary_range ''NGN 80,000'' = ''NGN 80,000''"
    unfolding card_salary_range_def l2 salary_range_of_lines_def
    by (simp add: s1 m2 render_salary_def truthy_str_def a t del: salary_search.simps)
  show ?thesis unfolding r2 using l1 m1 m2 a r1 by simp
qed


lemma three_letters_Some:
  "three_letters s = Some (c, r) \<Longrightarrow> length c = 3 \<and> list_all is_alpha c \<and> s = c @ r"
  by (induction s rule: three_letters.induct) (auto split: if_splits)

lemma range_tail_amount_nonempty: "range_tail s = Some (c2, a2) \<Longrightarrow> a2 \<noteq> []"
  by (auto simp: range_tail_def Let_def split: option.splits if_splits)

lemma salary_match_at_Some:
  assumes "salary_match_at prev s = Some (c, a1, c2, m4)"
  shows "length c = 3 \<and> list_all is_alpha c \<and> a1 \<noteq> [] \<and> m4 \<noteq> Some []"
proof -
  from assms obtain s1 where t: "three_letters s = Some (c, s1)" and a1: "a1 \<noteq> []"
    by (auto simp: salary_match_at_def Let_def split: if_splits option.splits)
  from assms have "m4 \<noteq> Some []"
    by (auto simp: salary_match_at_def Let_def split: if_splits option.splits
        dest: range_tail_amount_nonempty)
  with three_letters_Some [OF t] a1 show ?thesis by simp
qed

lemma salary_search_Some:
  "salary_search prev s = Some (c, a1, c2, m4) \<Longrightarrow>
     length c = 3 \<and> list_all is_alpha c \<and> a1 \<noteq> [] \<and> m4 \<noteq> Some []"
proof (induction s arbitrary: prev)
  case Nil
  then show ?case by simp
next
  case (Cons x xs)
  show ?case
  proof (cases "salary_match_at prev (x # xs)")
    case None
    with Cons show ?thesis by simp
  next
    case (Some m)
    with Cons.prems have "salary_match_at prev (x # xs) = Some (c, a1, c2, m4)" by simp
    then show ?thesis by (rule salary_match_at_Some)
  qed
qed

lemma group3_chars:
  "list_all is_digit s \<Longrightarrow> list_all (\<lambda>c. is_digit c \<or> c = CHR '','') (group3 s)"
  by (induction s rule: group3.induct) simp_all

lemma digit_not_alpha: "is_digit c \<Longrightarrow> \<not> is_alpha c"
  by (auto simp: is_digit_def is_alpha_def)

lemma comma_not_alpha: "\<not> is_alpha CHR '',''"
  by (simp add: is_alpha_def)

lemma toLocaleString_no_letters: "filter is_alpha (toLocaleString x) = []"
proof -
  have g: "filter is_alpha (rev (group3 (rev ds))) = []" if "list_all is_digit ds" for ds
  proof -
    have "list_all (\<lambda>c. is_digit c \<or> c = CHR '','') (group3 (rev ds))"
      by (rule group3_chars) (use that in \<open>simp add: list_all_iff\<close>)
    then have "\<forall>c \<in> set (rev (group3 (rev ds))). \<not> is_alpha c"
      using digit_not_alpha comma_not_alpha by (auto simp: list_all_iff)
    then show ?thesis by (simp add: filter_empty_conv)
  qed
  have "is_digit CHR ''0''" by (simp add: is_digit_def)
  then have z: "list_all is_digit (digits_of s @ replicate j CHR ''0'')" for s j
    using digits_of_all_digits [of s] by (auto simp: list_all_iff)
  show ?thesis
  proof (cases x)
    case Infinity
    then show ?thesis by (simp add: toLocaleString_def is_alpha_def)
  next
    case (Finite v)
    obtain n k s where sh: "shortest v = (n, k, s)" by (cases "shortest v")
    from Finite sh g [OF z [of s "n - k"]] show ?thesis
      by (simp add: toLocaleString_def is_alpha_def)
  qed
qed

text \<open>
  Claim C10, amended. When the salary line of a card matches with a first and a second
  amount, and the second amount is not zero, both amounts are rendered after the currency
  code that stands before the first amount; a code attached to the second amount is
  dropped, and the letters of the rendered string are that one code, twice.
\<close>

theorem salary_range_one_currency:
  assumes "find salary_test lines = Some l"
    and "salary_search None l = Some (c, a1, c2, Some a2)"
    and "amount_of a2 \<noteq> Finite 0"
  shows "salary_range_of_lines lines
           = c @ '' '' @ toLocaleString (amount_of a1) @ '' - '' @ c @ '' '' @
             toLocaleString (amount_of a2) \<and>
         length c = 3 \<and> list_all is_alpha c \<and>
         filter is_alpha (salary_range_of_lines lines) = c @ c"
proof -
  from salary_search_Some [OF assms(2)] have c: "length c = 3" "list_all is_alpha c"
    and a2: "a2 \<noteq> []" by simp_all
  from c(1) have cne: "c \<noteq> []" by auto
  from a2 obtain x xs where "a2 = x # xs" by (cases a2) auto
  then have tr: "truthy_str (Some a2)" by (simp add: truthy_str_def)
  have r: "salary_range_of_lines lines
           = c @ '' '' @ toLocaleString (amount_of a1) @ '' - '' @ c @ '' '' @
             toLocaleString (amount_of a2)"
    using assms cne tr by (simp add: salary_range_of_lines_def render_salary_def)
  have fc: "filter is_alpha c = c" using c(2) by (simp add: list_all_iff)
  have "filter is_alpha (salary_range_of_lines lines) = c @ c"
    unfolding r by (simp add: fc toLocaleString_no_letters is_alpha_def)
  with r c show ?thesis by simp
qed

theorem salary_range_one_currency_witness:
  "salary_range_of_lines [''NGN 100 - USD 2,500''] = ''NGN 100 - NGN 2,500'' \<and>
   filter is_alpha (salary_range_of_lines [''NGN 100 - USD 2,500'']) = ''NGNNGN''"
proof -
  have f: "find salary_test [''NGN 100 - USD 2,500''] = Some ''NGN 100 - USD 2,500''"
    by (simp add: salary_test_def salary_test_at_def char_classes)
  have m: "salary_search None ''NGN 100 - USD 2,500''
             = Some (''NGN'', ''100'', Some ''USD'', Some ''2,500'')"
    by (simp add: salary_match_at_def range_tail_def char_classes)
  have a: "amount_of ''2,500'' = Finite 2500" "amount_of ''100'' = Finite 100"
    by (simp_all add: amount_of_def Number_exact nat_of_digits_def digit_val_def)
  have t: "toLocaleString (Finite 2500) = ''2,500''" "toLocaleString (Finite 100) = ''100''"
    by (simp_all add: toLocaleString_exact)
  from salary_range_one_currency [OF f m] a t show ?thesis by (simp add: is_alpha_def)
qed

text \<open>
  As stated, with "both amounts are rendered" for every line on which two amounts are
  matched, C10 fails when the second amount is zero: \<open>max\<close> is then falsy and only the
  first amount is rendered.
\<close>

theorem salary_range_zero_max_counterexample:
  "find salary_test [''NGN 100 - USD 0''] = Some ''NGN 100 - USD 0'' \<and>
   salary_search None ''NGN 100 - USD 0'' = Some (''NGN'', ''100'', Some ''USD'', Some ''0'') \<and>
   salary_range_of_lines [''NGN 100 - USD 0''] = ''NGN 100'' \<and>
   salary_range_of_lines [''NGN 100 - USD 0''] \<noteq> ''NGN 100 - NGN 0''"
proof -
  have f: "find salary_test [''NGN 100 - USD 0''] = Some ''NGN 100 - USD 0''"
    by (simp add: salary_test_def salary_test_at_def char_classes)
  have m: "salary_search None ''NGN 100 - USD 0''
             = Some (''NGN'', ''100'', Some ''USD'', Some ''0'')"
    by (simp add: salary_match_at_def range_tail_def char_classes)
  have a: "amount_of ''0'' = Finite 0" "amount_of ''100'' = Finite 100"
    by (simp_all add: amount_of_def Number_exact nat_of_digits_def digit_val_def)
  have t: "toLocaleString (Finite 100) = ''100''"
    by (simp add: toLocaleString_exact)
  have r: "salary_range_of_lines [''NGN 100 - USD 0''] = ''NGN 100''"
    unfolding salary_range_of_lines_def f
    by (simp add: m render_salary_def truthy_str_def a t del: salary_search.simps)
  show ?thesis unfolding r using f m by simp
qed

subsection \<open>URL resolver\<close>

lemma toAbs_checked_http_only:
  "(URL href base = None \<longrightarrow> toAbs_checked URL href base = None) \<and>
   (\<forall>u. URL href base = Some u \<and> \<not> is_http u \<longrightarrow> toAbs_checked URL href base = None) \<and>
   (\<forall>u. toAbs_checked URL href base = Some u \<longrightarrow> is_http u)"
  by (auto simp: toAbs_checked_def split: option.splits if_splits)

text \<open>
  Claim C9. The resolver is to return \<open>null\<close> for a URL whose scheme is neither \<open>http\<close> nor
  \<open>https\<close>. The variant with the test \<open>/^https?:/i\<close> does (\<open>toAbs_checked_http_only\<close>);
  the variant used by the sanitizer, the link collector and the pagination of the main
  script, and the CommonJS variant, return whatever the URL parser returns. The platform's
  parser resolves \<open>mailto:hr@example.com\<close> to itself, and so do they.
\<close>

theorem toAbs_returns_mailto:
  assumes "URL ''mailto:hr@example.com'' ''https://www.jobberman.com'' = Some ''mailto:hr@example.com''"
  shows "toAbs URL ''mailto:hr@example.com'' ''https://www.jobberman.com''
           = Some ''mailto:hr@example.com'' \<and>
         toAbs_cjs URL ''mailto:hr@example.com'' ''https://www.jobberman.com''
           = ''mailto:hr@example.com'' \<and>
         \<not> is_http ''mailto:hr@example.com'' \<and>
         toAbs_checked URL ''mailto:hr@example.com'' ''https://www.jobberman.com'' = None"
  using assms by (simp add: toAbs_def toAbs_cjs_def toAbs_checked_def is_http_def lower_char_def)

theorem toAbs_returns_mailto_witness:
  "toAbs (\<lambda>href base. if href = ''mailto:hr@example.com'' then Some href else None)
      ''mailto:hr@example.com'' ''https://www.jobberman.com'' = Some ''mailto:hr@example.com'' \<and>
   \<not> is_http ''mailto:hr@example.com''"
  using toAbs_returns_mailto
    [of "\<lambda>href base. if href = ''mailto:hr@example.com'' then Some href else None"]
  by simp

subsection \<open>Sanitizer\<close>

lemmas sanitize_eval = sanitizeDescription_def html_of_def toLowerCase_def lower_char_def
  allowed_def void_tags_def raw_text_tags_def is_tag_def serialize_attribs_def cleanText_def
  trim_def is_space_def is_nbsp_tab_cr_lf_def reset_attribs_def truthy_str_def toAbs_def

text \<open>
  Claim C2. Sanitizing the output of the sanitizer is to give the same output again. The
  second loop of \<open>sanitizeDescription\<close> removes empty elements in one pass in document
  order, so a parent that only becomes empty by the removal of its children stays. On a
  paragraph that holds an empty \<open>strong\<close> the first run leaves \<open><p></p>\<close>; the document
  of that output is the second fragment below, and sanitizing it removes the paragraph.
\<close>

theorem sanitizeDescription_twice:
  "sanitizeDescription env
     [Elem ''div'' [] [Elem ''p'' [] [Elem ''strong'' [] []], Elem ''p'' [] [Text ''Apply now'']]]
     baseUrl = ''<div><p></p><p>Apply now</p></div>'' \<and>
   html_of [Elem ''div'' [] [Elem ''p'' [] [], Elem ''p'' [] [Text ''Apply now'']]]
     = ''<div><p></p><p>Apply now</p></div>'' \<and>
   sanitizeDescription env
     [Elem ''div'' [] [Elem ''p'' [] [], Elem ''p'' [] [Text ''Apply now'']]]
     baseUrl = ''<div><p>Apply now</p></div>''"
  by (simp add: sanitize_eval)

lemma enrich_description_cjs_both_or_neither:
  "(description_html (enrich_description_cjs sanitize env jsonLd baseUrl out) = description_html out \<and>
    description_text (enrich_description_cjs sanitize env jsonLd baseUrl out) = description_text out) \<or>
   (description_html (enrich_description_cjs sanitize env jsonLd baseUrl out)
      = JStr (sanitize (description_fragment env (js_get jsonLd ''description'')) baseUrl) \<and>
    description_text (enrich_description_cjs sanitize env jsonLd baseUrl out)
      = JStr (cleanText (concat (map text_of (description_fragment env (js_get jsonLd ''description''))))))"
  by (simp add: enrich_description_cjs_def Let_def)

text \<open>
  Claim C6. A description in the structured data is to replace \<open>description_html\<close> and
  \<open>description_text\<close> together. The main script sets each half with its own \<open>||\<close>: for the
  description \<open><br>\<close> the sanitized HTML is \<open><div><br></div>\<close> and the text is empty, so
  \<open>description_html\<close> is replaced and \<open>description_text\<close> keeps the value of the cascade.
  The CommonJS variant tests both halves first (\<open>enrich_description_cjs_both_or_neither\<close>).
\<close>

theorem enrichFromJsonLd_description_half:
  assumes "pf_cheerioLoad env ''<div><br></div>''
             = [Elem ''html'' [] [Elem ''head'' [] [], Elem ''body'' [] [Elem ''div'' [] [Elem ''br'' [] []]]]]"
  shows "enrichFromJsonLd env (JObj [(''@type'', JStr ''JobPosting''), (''description'', JStr ''<br>'')])
           flds baseUrl
         = Inr (flds\<lparr>description_html := JStr ''<div><br></div>''\<rparr>)"
  using assms
  by (simp add: enrichFromJsonLd_def enrich_title_def enrich_company_def enrich_date_posted_def
      enrich_job_type_def enrich_location_def enrich_salary_def enrich_category_def
      enrich_description_def description_fragment_def js_or_def js_and_def Let_def sanitize_eval)

theorem enrichFromJsonLd_description_half_witness:
  "enrichFromJsonLd
     \<lparr>pf_URL = \<lambda>href base. Some href,
       pf_cheerioLoad = \<lambda>html. [Elem ''html'' [] [Elem ''head'' [] [],
                          Elem ''body'' [] [Elem ''div'' [] [Elem ''br'' [] []]]]],
       pf_parseFragment = \<lambda>markup. [Text markup],
             pf_Number_toLocaleString = \<lambda>n. []\<rparr>
     (JObj [(''@type'', JStr ''JobPosting''), (''description'', JStr ''<br>'')])
     \<lparr>title = JStr ''Accountant'', company = JStr [], job_type = JStr [], location = JStr [],
       salary_range = JStr [], category = JStr [], description_html = JStr ''<p>Old text</p>'',
       description_text = JStr ''Old text'', date_posted = JStr []\<rparr>
     ''https://www.jobberman.com/listings/accountant''
   = Inr \<lparr>title = JStr ''Accountant'', company = JStr [], job_type = JStr [],
          location = JStr [], salary_range = JStr [], category = JStr [],
          description_html = JStr ''<div><br></div>'', description_text = JStr ''Old text'',
          date_posted = JStr []\<rparr>"
  using enrichFromJsonLd_description_half
    [of "\<lparr>pf_URL = \<lambda>href base. Some href,
          pf_cheerioLoad = \<lambda>html. [Elem ''html'' [] [Elem ''head'' [] [],
                          Elem ''body'' [] [Elem ''div'' [] [Elem ''br'' [] []]]]],
          pf_parseFragment = \<lambda>markup. [Text markup],
             pf_Number_toLocaleString = \<lambda>n. []\<rparr>"]
  by simp

subsection \<open>Merge\<close>




























subsection \<open>Request handler\<close>

lemma say_simps [simp]:
  "jobsScraped (say lv msg s) = jobsScraped s"
  "jobsEnqueued (say lv msg s) = jobsEnqueued s"
  "scrapedUrls (say lv msg s) = scrapedUrls s"
  "dataset (say lv msg s) = dataset s"
  "queue (say lv msg s) = queue s"
  "suspended (say lv msg s) = suspended s"
  "log (say lv msg s) = log s @ [(lv, msg)]"
  by (simp_all add: say_def)

lemma paginate_keeps [simp]:
  "jobsScraped (paginate cfg env ctx s) = jobsScraped s"
  "jobsEnqueued (paginate cfg env ctx s) = jobsEnqueued s"
  "scrapedUrls (paginate cfg env ctx s) = scrapedUrls s"
  "dataset (paginate cfg env ctx s) = dataset s"
  "suspended (paginate cfg env ctx s) = suspended s"
  by (simp_all add: paginate_def Let_def)


lemma enqueue_loop_keeps:
  assumes "enqueue_loop cfg env ctx us s = (s', t)"
  shows "jobsScraped s' = jobsScraped s" "jobsEnqueued s' = jobsEnqueued s"
    "scrapedUrls s' = scrapedUrls s" "dataset s' = dataset s" "suspended s' = suspended s"
  using assms by (induction us) (auto split: if_splits)




lemma resume_dataset: "resume cfg env k s = (s', t) \<Longrightarrow> dataset s' = dataset s"
  by (cases k) (auto dest: enqueue_loop_keeps)

lemma resume_dataset_fst: "dataset (fst (resume cfg env k s)) = dataset s"
  by (cases "resume cfg env k s") (auto dest: resume_dataset)

lemma finish_dataset: "dataset (finish cfg env st) = dataset (fst st)"
  by (induction cfg env st rule: finish.induct) (simp_all add: resume_dataset_fst)


text \<open>The detail branch of the handler, from its start to its end.\<close>

lemma requestHandler_detail:
  "requestHandler cfg env (DETAIL request_url sd) (Some doc) s =
     (if jobsScraped s \<ge> RESULTS_WANTED cfg
        then say Info ''Skipping detail page, results_wanted limit already met.'' s
      else if request_url \<in> scrapedUrls s
        then say Warning ''Skipping duplicate detail URL'' s
      else
        (case extractFromDetail env request_url sd (as_detail doc) of
           Inl e \<Rightarrow> say Error ''Error in requestHandler'' s
         | Inr it \<Rightarrow>
             if cleanText_val (title it) = []
             then say Warning ''Skipping detail page with no title'' s
             else say Info ''Saved''
                    (s\<lparr>dataset := dataset s @ [it], jobsScraped := jobsScraped s + 1,
                       scrapedUrls := insert request_url (scrapedUrls s)\<rparr>)))"
  by (simp add: requestHandler_def split: sum.splits)

lemma requestHandler_no_document:
  "requestHandler cfg env req None s = say Warning ''Skipping request, Cheerio object not available'' s"
  by (simp add: requestHandler_def)

lemma extract_sample:
  "extractFromDetail sample_platform u empty_seed (as_detail (sample_doc ls t))
     = Inr (sample_item u (cleanText t))"
  by (simp add: extractFromDetail_def enrichFromJsonLd_def cascade_fields_def cascade_def
      cascade_description_def better_block_def getFullText_def deEllipsize_def or_str_def
      truthy_str_def sample_doc_def blank_page_def empty_seed_def sample_item_def
      sample_platform_def fields.defs item.defs)

lemma start_dataset_titled:
  assumes "collectDetails cfg" and "start cfg env req doc s = (s', t)"
  shows "dataset s' = dataset s \<or> (\<exists>it. dataset s' = dataset s @ [it] \<and> cleanText_val (title it) \<noteq> [])"
  using assms
  by (cases "(cfg, env, req, doc, s)" rule: start.cases)
     (auto simp: Let_def split: if_splits sum.splits dest: enqueue_loop_keeps)

lemma crawl_step_dataset_titled:
  assumes "collectDetails cfg" and "crawl_step cfg env s s'"
    and "\<forall>r \<in> set (dataset s). cleanText_val (title r) \<noteq> []"
  shows "\<forall>r \<in> set (dataset s'). cleanText_val (title r) \<noteq> []"
  using assms(2)
proof cases
  case (launch req doc s1 t)
  from start_dataset_titled [OF assms(1) launch(4)] assms(3) launch(1) show ?thesis by auto
next
  case (wake k s1 t)
  from resume_dataset [OF wake(3)] assms(3) wake(1) show ?thesis by simp
qed

lemma reachable_dataset_titled:
  assumes "collectDetails cfg" and "reachable cfg env initialUrls s"
  shows "\<forall>r \<in> set (dataset s). cleanText_val (title r) \<noteq> []"
  using assms(2) unfolding reachable_def
proof (induction rule: rtranclp_induct)
  case base
  then show ?case by (simp add: initial_def)
next
  case (step y z)
  from crawl_step_dataset_titled [OF assms(1) step(2) step(3)] show ?case .
qed

text \<open>
  Claim C5. When the record that \<open>extractFromDetail\<close> returns for a detail page has a title
  that is empty after normalization, the handler pushes nothing, leaves the counters, the
  visited set and the queue as they are, logs a warning (when the page got as far as the
  extraction) and returns; every record the detail branch pushes has a non-empty title, and
  so has every record of the dataset in any reachable state of a crawl that collects
  details.
\<close>

theorem title_gate:
  "(extractFromDetail env request_url sd (as_detail doc) = Inr it \<and> cleanText_val (title it) = [] \<longrightarrow>
      (let s' = requestHandler cfg env (DETAIL request_url sd) (Some doc) s in
       dataset s' = dataset s \<and> jobsScraped s' = jobsScraped s \<and>
       scrapedUrls s' = scrapedUrls s \<and> queue s' = queue s \<and> suspended s' = suspended s \<and>
       (jobsScraped s < RESULTS_WANTED cfg \<and> request_url \<notin> scrapedUrls s \<longrightarrow>
          log s' = log s @ [(Warning, ''Skipping detail page with no title'')]))) \<and>
   (\<forall>r. r \<in> set (dataset (requestHandler cfg env (DETAIL request_url sd) d s)) \<and>
        r \<notin> set (dataset s) \<longrightarrow> cleanText_val (title r) \<noteq> []) \<and>
   (collectDetails cfg \<and> reachable cfg env initialUrls s0 \<longrightarrow>
      (\<forall>r \<in> set (dataset s0). cleanText_val (title r) \<noteq> []))"
proof (intro conjI)
  show "extractFromDetail env request_url sd (as_detail doc) = Inr it \<and> cleanText_val (title it) = [] \<longrightarrow>
      (let s' = requestHandler cfg env (DETAIL request_url sd) (Some doc) s in
       dataset s' = dataset s \<and> jobsScraped s' = jobsScraped s \<and>
       scrapedUrls s' = scrapedUrls s \<and> queue s' = queue s \<and> suspended s' = suspended s \<and>
       (jobsScraped s < RESULTS_WANTED cfg \<and> request_url \<notin> scrapedUrls s \<longrightarrow>
          log s' = log s @ [(Warning, ''Skipping detail page with no title'')]))"
    by (simp add: requestHandler_detail Let_def)
next
  show "\<forall>r. r \<in> set (dataset (requestHandler cfg env (DETAIL request_url sd) d s)) \<and>
        r \<notin> set (dataset s) \<longrightarrow> cleanText_val (title r) \<noteq> []"
  proof (cases d)
    case None
    then show ?thesis by (simp add: requestHandler_no_document)
  next
    case (Some doc')
    then show ?thesis
      by (auto simp: requestHandler_detail split: sum.splits if_splits)
  qed
next
  show "collectDetails cfg \<and> reachable cfg env initialUrls s0 \<longrightarrow>
      (\<forall>r \<in> set (dataset s0). cleanText_val (title r) \<noteq> [])"
    using reachable_dataset_titled by blast
qed

theorem title_gate_witness:
  "dataset (requestHandler \<lparr>RESULTS_WANTED = 1, MAX_PAGES = 999, collectDetails = True\<rparr>
       sample_platform (DETAIL ''https://www.jobberman.com/listings/a'' empty_seed)
       (Some (sample_doc [] [])) (initial [])) = [] \<and>
   log (requestHandler \<lparr>RESULTS_WANTED = 1, MAX_PAGES = 999, collectDetails = True\<rparr>
       sample_platform (DETAIL ''https://www.jobberman.com/listings/a'' empty_seed)
       (Some (sample_doc [] [])) (initial []))
     = [(Warning, ''Skipping detail page with no title'')]"
proof -
  let ?cfg = "\<lparr>RESULTS_WANTED = 1, MAX_PAGES = 999, collectDetails = True\<rparr>"
  let ?u = "''https://www.jobberman.com/listings/a''"
  have e: "extractFromDetail sample_platform ?u empty_seed (as_detail (sample_doc [] []))
             = Inr (sample_item ?u [])"
    using extract_sample [of ?u "[]" "[]"] by (simp add: cleanText_def trim_def)
  have t: "cleanText_val (title (sample_item ?u [])) = []"
    by (simp add: sample_item_def cleanText_val_def js_coalesce_def cleanText_def trim_def)
  from title_gate [of sample_platform ?u empty_seed "sample_doc [] []" "sample_item ?u []"
      ?cfg "initial []"] e t
  show ?thesis by (simp add: Let_def initial_def)
qed





subsection \<open>Quota\<close>

lemma count_simps [simp]:
  "count P [] = 0"
  "count P (x # xs) = (if P x then 1 else 0) + count P xs"
  "count P (xs @ ys) = count P xs + count P ys"
  by (simp_all add: count_def)





















lemma sample_doc_simps [simp]:
  "links (as_list (sample_doc ls t)) = ls"
  "seedsByUrl (as_list (sample_doc ls t)) u = None"
  by (simp_all add: sample_doc_def)


lemma sample_item_title [simp]: "cleanText_val (title (sample_item u t)) = cleanText t"
  by (simp add: sample_item_def cleanText_val_def js_coalesce_def)




end
